theory Spec2Isabelle
  imports Complex_Main
begin

section \<open>GlickoTR rating update (glicko.ts), embedded over the reals\<close>

text \<open>
  The TypeScript source computes on \<open>number\<close>. This first embedding takes a \<open>number\<close> to
  be a real: arithmetic is exact, and there are no NaN or infinite values. Where the
  source can divide by zero or take the logarithm of zero, the value JavaScript produces
  there is written out as a branch of its own, since HOL's \<open>x / 0 = 0\<close> and \<open>ln 0 = 0\<close> are
  not what the program does. Status strings are \<open>string\<close>; the loop counters \<open>k\<close> and
  \<open>iter\<close> are naturals. It serves the properties that rounding does not touch: the
  weights, the identity update, the branch the solver takes, and strict inequalities
  with a wide margin. The properties that speak of exact equality of computed numbers, or
  of finiteness, are settled on the second embedding, on IEEE doubles, further below.
\<close>

subsection \<open>Constants\<close>

definition DEFAULT_MU :: real where "DEFAULT_MU = 1500"
definition DEFAULT_PHI :: real where "DEFAULT_PHI = 250"
definition DEFAULT_SIGMA :: real where "DEFAULT_SIGMA = 6 / 100"
definition TAU :: real where "TAU = 5 / 10"
definition EPSILON :: real where "EPSILON = 1 / 1000000"
definition SCALING_FACTOR :: real where "SCALING_FACTOR = 1737178 / 10000"
definition CLAMP_EPSILON :: real where "CLAMP_EPSILON = 1 / 10"

subsection \<open>Ratings\<close>

text \<open>
  \<open>PlayerRating\<close> and \<open>Glicko2Rating\<close> are two interfaces with the same three fields;
  TypeScript types are structural, so they are one record here.
\<close>

record PlayerRating =
  mu :: real
  phi :: real
  sigma :: real

type_synonym Glicko2Rating = PlayerRating

record GlickoTRUpdate =
  player_new :: PlayerRating
  opponent_new :: PlayerRating

definition createDefaultRating :: PlayerRating where
  "createDefaultRating = \<lparr>mu = DEFAULT_MU, phi = DEFAULT_PHI, sigma = DEFAULT_SIGMA\<rparr>"

subsection \<open>Scale conversion\<close>

definition scaleDown :: "PlayerRating \<Rightarrow> Glicko2Rating" where
  "scaleDown rating =
     (let mu_g2 = (mu rating - DEFAULT_MU) / SCALING_FACTOR;
          phi_g2 = phi rating / SCALING_FACTOR
      in \<lparr>mu = mu_g2, phi = phi_g2, sigma = sigma rating\<rparr>)"

definition scaleUp :: "Glicko2Rating \<Rightarrow> PlayerRating" where
  "scaleUp rating_g2 =
     (let mu0 = mu rating_g2 * SCALING_FACTOR + DEFAULT_MU;
          phi' = phi rating_g2 * SCALING_FACTOR;
          min_rating = 0;
          max_rating = 5000;
          mu' = max min_rating (min mu0 max_rating)
      in \<lparr>mu = mu', phi = phi', sigma = sigma rating_g2\<rparr>)"

subsection \<open>Impact and expected score\<close>

definition reduceImpact :: "Glicko2Rating \<Rightarrow> real" where
  "reduceImpact rating_g2 = 1 / sqrt (1 + (3 * (phi rating_g2)\<^sup>2) / pi\<^sup>2)"

definition expectScore :: "Glicko2Rating \<Rightarrow> Glicko2Rating \<Rightarrow> real \<Rightarrow> real" where
  "expectScore rating_g2 other_rating_g2 impact =
     (let exponent = - impact * (mu rating_g2 - mu other_rating_g2);
          score = 1 / (1 + exp exponent)
      in max CLAMP_EPSILON (min score (1 - CLAMP_EPSILON)))"

subsection \<open>Match weight\<close>

definition calculateMatchWeight :: "string \<Rightarrow> real \<Rightarrow> real \<Rightarrow> real" where
  "calculateMatchWeight status playerGames opponentGames =
     (if status = ''walkover'' then 0
      else if status = ''completed'' then 1
      else if status = ''retired'' then
        (let total_games = playerGames + opponentGames in
         if total_games \<le> 0 then 0
         else
           let threshold_games = 18;
               max_retirement_weight = 8 / 10
           in min 1 (total_games / threshold_games) * max_retirement_weight)
      else 0)"

subsection \<open>The volatility solver\<close>

text \<open>Every real is finite: the source's \<open>isFinite\<close> tests never fail in this embedding.\<close>

definition isFinite :: "real \<Rightarrow> bool" where
  "isFinite x = True"

text \<open>
  The closure \<open>f\<close> of \<open>determineSigma\<close>, with the variables it captures as parameters.
  Its division is by \<open>2 * tmp ** 2\<close> with \<open>tmp >= 1e-15\<close>, never by zero.
\<close>

definition f :: "real \<Rightarrow> real \<Rightarrow> real \<Rightarrow> real \<Rightarrow> real \<Rightarrow> real" where
  "f phi' variance difference_squared alpha x =
     (let tau_squared = TAU\<^sup>2;
          exp_x = exp x;
          tmp = phi'\<^sup>2 + variance + exp_x
      in if tmp < 1 / 10 ^ 15 then (x - alpha) / tau_squared - 1
         else
           let a_term = exp_x * (difference_squared - phi'\<^sup>2 - variance - exp_x) / (2 * tmp\<^sup>2);
               b_term = (x - alpha) / tau_squared
           in a_term - b_term)"

text \<open>The search for the lower bound: \<open>while (k < max_k && ... ) k += 1\<close>, from \<open>k\<close> on.\<close>

function find_k :: "(real \<Rightarrow> real) \<Rightarrow> real \<Rightarrow> nat \<Rightarrow> nat" where
  "find_k g alpha k =
     (if k < 100 \<and> alpha - real k * TAU \<ge> - 700 \<and> g (alpha - real k * TAU) \<ge> 0
      then find_k g alpha (k + 1) else k)"
  by pat_completeness auto
termination
  by (relation "measure (\<lambda>(g, alpha, k). 100 - k)") auto

text \<open>
  The candidate \<open>c\<close> of one iteration and \<open>f(c)\<close>. \<open>a + (a - b) * f_a / (f_b - f_a)\<close> is
  not finite in JavaScript exactly when \<open>f_b - f_a\<close> is zero, and the source then takes the
  midpoint. \<open>None\<close> is the source's \<open>break\<close> before \<open>b\<close> is updated.
\<close>

definition next_c :: "(real \<Rightarrow> real) \<Rightarrow> real \<Rightarrow> real \<Rightarrow> real \<Rightarrow> real \<Rightarrow> (real \<times> real) option" where
  "next_c g a b f_a f_b =
     (let c = (if f_b - f_a = 0 then (a + b) / 2 else a + (a - b) * f_a / (f_b - f_a));
          f_c = g c
      in if \<not> isFinite f_c then
           (if \<bar>b - a\<bar> < EPSILON * 10 then None
            else
              let c = (a + b) / 2;
                  f_c = g c
              in if \<not> isFinite f_c then None else Some (c, f_c))
         else Some (c, f_c))"

text \<open>The update of \<open>a\<close> and \<open>f_a\<close> once \<open>c\<close> and \<open>f_c\<close> are known.\<close>

definition next_a :: "real \<Rightarrow> real \<Rightarrow> real \<Rightarrow> real \<Rightarrow> real \<Rightarrow> real \<times> real" where
  "next_a a b f_a f_b f_c =
     (if f_c * f_b < 0 then (b, f_b)
      else
        let safe_denom = f_b + f_c
        in if \<bar>safe_denom\<bar> < 1 / 10 ^ 15 then (a, f_a * (5 / 10))
           else (a, f_a * (f_b / safe_denom)))"

text \<open>
  The convergence loop together with the final \<open>return Math.exp(b / 2)\<close>: the value
  \<open>determineSigma\<close> returns when the loop is entered in the state \<open>(a, b, f_a, f_b, iter)\<close>.
\<close>

function refine :: "(real \<Rightarrow> real) \<Rightarrow> real \<Rightarrow> real \<Rightarrow> real \<Rightarrow> real \<Rightarrow> real \<Rightarrow> real \<Rightarrow> nat \<Rightarrow> real" where
  "refine g sigma' variance a b f_a f_b iter =
     (if \<bar>b - a\<bar> > EPSILON \<and> iter < 100 then
        (if \<not> isFinite f_a \<or> \<not> isFinite f_b then sigma'
         else if f_a * f_b \<ge> 0 then (if variance < 10 ^ 6 then sigma' else sigma' * (9 / 10))
         else
           (case next_c g a b f_a f_b of
              None \<Rightarrow> exp (b / 2)
            | Some (c, f_c) \<Rightarrow>
                (case next_a a b f_a f_b f_c of
                   (a', f_a') \<Rightarrow>
                     if \<bar>f_c - f_a'\<bar> < EPSILON then exp (c / 2)
                     else refine g sigma' variance a' c f_a' f_c (iter + 1))))
      else exp (b / 2))"
  by pat_completeness auto
termination
  by (relation "measure (\<lambda>(g, s, v, a, b, f_a, f_b, iter). 100 - iter)") auto

text \<open>
  \<open>determineSigma\<close>. For \<open>sigma = 0\<close> the source computes \<open>alpha = Math.log(0) = -Infinity\<close>;
  then \<open>f(a)\<close> is NaN, and the function returns \<open>sigma\<close> from the first \<open>isFinite\<close> test when
  \<open>b\<close> is finite, and \<open>Math.exp(-Infinity) = 0\<close> with the loop skipped otherwise: 0 both ways.
\<close>

definition determineSigma :: "Glicko2Rating \<Rightarrow> real \<Rightarrow> real \<Rightarrow> real" where
  "determineSigma rating_g2 difference variance =
     (let phi' = phi rating_g2;
          sigma' = sigma rating_g2;
          difference_squared = difference\<^sup>2
      in if sigma' = 0 then 0
         else
           let alpha = ln (sigma'\<^sup>2);
               g = f phi' variance difference_squared alpha;
               a = alpha;
               b = (if difference_squared > phi'\<^sup>2 + variance
                    then ln (difference_squared - phi'\<^sup>2 - variance)
                    else alpha - real (find_k g alpha 1) * TAU);
               f_a = g a;
               f_b = g b
           in refine g sigma' variance a b f_a f_b 0)"

subsection \<open>The update of one match\<close>

text \<open>
  \<open>1.0 / Math.sqrt(1.0 / phi_star ** 2 + varianceInvTerm)\<close>: for \<open>phi_star = 0\<close> JavaScript
  has \<open>1 / 0 = Infinity\<close> and \<open>1 / Math.sqrt(Infinity) = 0\<close>.
\<close>

definition new_phi :: "real \<Rightarrow> real \<Rightarrow> real" where
  "new_phi phi_star varianceInvTerm =
     (if phi_star = 0 then 0 else 1 / sqrt (1 / phi_star\<^sup>2 + varianceInvTerm))"

definition calculateGlickoTRUpdate ::
    "PlayerRating \<Rightarrow> PlayerRating \<Rightarrow> real \<Rightarrow> real \<Rightarrow> string \<Rightarrow> GlickoTRUpdate" where
  "calculateGlickoTRUpdate playerRating opponentRating playerGames opponentGames status =
     (let matchWeight = calculateMatchWeight status playerGames opponentGames in
      if matchWeight \<le> 0 then \<lparr>player_new = playerRating, opponent_new = opponentRating\<rparr>
      else
        let player_g2 = scaleDown playerRating;
            opponent_g2 = scaleDown opponentRating;
            impactPlayer = reduceImpact opponent_g2;
            expectedScorePlayer = expectScore player_g2 opponent_g2 impactPlayer;
            totalGames = playerGames + opponentGames;
            actualScorePlayer = (if totalGames \<le> 0 then 5 / 10 else playerGames / totalGames);
            variancePlayer = 1 / (impactPlayer\<^sup>2 * expectedScorePlayer * (1 - expectedScorePlayer));
            clampedVariancePlayer = min variancePlayer (10 ^ 6);
            diffTermPlayer = matchWeight * impactPlayer * (actualScorePlayer - expectedScorePlayer);
            varianceForSigmaPlayer = clampedVariancePlayer;
            varianceInvTermPlayer =
              matchWeight * impactPlayer\<^sup>2 * expectedScorePlayer * (1 - expectedScorePlayer);
            newSigmaPlayer = determineSigma player_g2 diffTermPlayer varianceForSigmaPlayer;
            phi_star_player = sqrt ((phi player_g2)\<^sup>2 + newSigmaPlayer\<^sup>2);
            newPhiPlayer_g2 = new_phi phi_star_player varianceInvTermPlayer;
            newMuPlayer_g2 = mu player_g2 + newPhiPlayer_g2\<^sup>2 * diffTermPlayer;
            updatedPlayer_g2 = \<lparr>mu = newMuPlayer_g2, phi = newPhiPlayer_g2, sigma = newSigmaPlayer\<rparr>;
            impactOpponent = reduceImpact player_g2;
            expectedScoreOpponent = expectScore opponent_g2 player_g2 impactOpponent;
            actualScoreOpponent = 1 - actualScorePlayer;
            varianceOpponent =
              1 / (impactOpponent\<^sup>2 * expectedScoreOpponent * (1 - expectedScoreOpponent));
            clampedVarianceOpponent = min varianceOpponent (10 ^ 6);
            diffTermOpponent =
              matchWeight * impactOpponent * (actualScoreOpponent - expectedScoreOpponent);
            varianceForSigmaOpponent = clampedVarianceOpponent;
            varianceInvTermOpponent =
              matchWeight * impactOpponent\<^sup>2 * expectedScoreOpponent * (1 - expectedScoreOpponent);
            newSigmaOpponent = determineSigma opponent_g2 diffTermOpponent varianceForSigmaOpponent;
            phi_star_opponent = sqrt ((phi opponent_g2)\<^sup>2 + newSigmaOpponent\<^sup>2);
            newPhiOpponent_g2 = new_phi phi_star_opponent varianceInvTermOpponent;
            newMuOpponent_g2 = mu opponent_g2 + newPhiOpponent_g2\<^sup>2 * diffTermOpponent;
            updatedOpponent_g2 =
              \<lparr>mu = newMuOpponent_g2, phi = newPhiOpponent_g2, sigma = newSigmaOpponent\<rparr>;
            finalPlayerRating = scaleUp updatedPlayer_g2;
            finalOpponentRating = scaleUp updatedOpponent_g2
        in \<lparr>player_new = finalPlayerRating, opponent_new = finalOpponentRating\<rparr>)"

subsection \<open>Auxiliary notions for stating the properties\<close>

text \<open>
  Steps 3 to 9 of \<open>calculateGlickoTRUpdate\<close> for one competitor: the source writes them
  out twice, once from the player's and once from the opponent's perspective.
  \<open>update_sides\<close> below proves that the function is these two calls.
\<close>

definition rate_side :: "real \<Rightarrow> Glicko2Rating \<Rightarrow> Glicko2Rating \<Rightarrow> real \<Rightarrow> PlayerRating" where
  "rate_side matchWeight self_g2 other_g2 actualScore =
     (let impact = reduceImpact other_g2;
          expectedScore = expectScore self_g2 other_g2 impact;
          variance = 1 / (impact\<^sup>2 * expectedScore * (1 - expectedScore));
          clampedVariance = min variance (10 ^ 6);
          diffTerm = matchWeight * impact * (actualScore - expectedScore);
          varianceInvTerm = matchWeight * impact\<^sup>2 * expectedScore * (1 - expectedScore);
          newSigma = determineSigma self_g2 diffTerm clampedVariance;
          phi_star = sqrt ((phi self_g2)\<^sup>2 + newSigma\<^sup>2);
          newPhi_g2 = new_phi phi_star varianceInvTerm;
          newMu_g2 = mu self_g2 + newPhi_g2\<^sup>2 * diffTerm
      in scaleUp \<lparr>mu = newMu_g2, phi = newPhi_g2, sigma = newSigma\<rparr>)"

text \<open>
  The state of the convergence loop is \<open>(a, b, f_a, f_b, iter)\<close>. \<open>solver_f\<close> is the closure
  \<open>f\<close> of one call of \<open>determineSigma\<close>, \<open>solver_start\<close> the state in which the call
  enters the loop, \<open>solver_step\<close> one full pass through the loop body (\<open>None\<close> when the
  loop is left instead), and \<open>iterates\<close> the states a call passes through.
\<close>

type_synonym solver_state = "real \<times> real \<times> real \<times> real \<times> nat"

definition solver_f :: "Glicko2Rating \<Rightarrow> real \<Rightarrow> real \<Rightarrow> real \<Rightarrow> real" where
  "solver_f rating_g2 difference variance =
     f (phi rating_g2) variance (difference\<^sup>2) (ln ((sigma rating_g2)\<^sup>2))"

definition solver_start :: "Glicko2Rating \<Rightarrow> real \<Rightarrow> real \<Rightarrow> solver_state" where
  "solver_start rating_g2 difference variance =
     (let alpha = ln ((sigma rating_g2)\<^sup>2);
          g = solver_f rating_g2 difference variance;
          b = (if difference\<^sup>2 > (phi rating_g2)\<^sup>2 + variance
               then ln (difference\<^sup>2 - (phi rating_g2)\<^sup>2 - variance)
               else alpha - real (find_k g alpha 1) * TAU)
      in (alpha, b, g alpha, g b, 0))"

fun solver_step :: "(real \<Rightarrow> real) \<Rightarrow> solver_state \<Rightarrow> solver_state option" where
  "solver_step g (a, b, f_a, f_b, iter) =
     (if \<bar>b - a\<bar> > EPSILON \<and> iter < 100 \<and> f_a * f_b < 0 then
        (case next_c g a b f_a f_b of
           None \<Rightarrow> None
         | Some (c, f_c) \<Rightarrow>
             (case next_a a b f_a f_b f_c of
                (a', f_a') \<Rightarrow>
                  if \<bar>f_c - f_a'\<bar> < EPSILON then None else Some (a', c, f_a', f_c, iter + 1)))
      else None)"

inductive iterates :: "(real \<Rightarrow> real) \<Rightarrow> solver_state \<Rightarrow> solver_state \<Rightarrow> bool" for g where
  iterates_start: "iterates g s s"
| iterates_step: "iterates g s t \<Longrightarrow> solver_step g t = Some u \<Longrightarrow> iterates g s u"

subsection \<open>The weighting policy in the specification's words\<close>

text \<open>
  The specification's contest has a status out of three, a category and a visibility flag,
  and its policy reads: walkover 0; standard and completed 1; standard and retired
  \<open>min(1, totalScore/18) * 0.8\<close>, and 0 for \<open>totalScore <= 0\<close>; tiebreak 0.6 if any score is
  present, else 0; the base weight times 1.2 for a public contest.
\<close>

datatype Status = Completed | Retired | Walkover

datatype Category = Standard | Tiebreak

fun status_string :: "Status \<Rightarrow> string" where
  "status_string Completed = ''completed''"
| "status_string Retired = ''retired''"
| "status_string Walkover = ''walkover''"

definition specBaseWeight :: "Status \<Rightarrow> Category \<Rightarrow> real \<Rightarrow> real" where
  "specBaseWeight status category totalScore =
     (if status = Walkover then 0
      else if category = Tiebreak then (if totalScore > 0 then 6 / 10 else 0)
      else if status = Completed then 1
      else if totalScore \<le> 0 then 0
      else min 1 (totalScore / 18) * (8 / 10))"

definition specWeight :: "Status \<Rightarrow> Category \<Rightarrow> bool \<Rightarrow> real \<Rightarrow> real" where
  "specWeight status category isPublic totalScore =
     (if isPublic then specBaseWeight status category totalScore * (12 / 10)
      else specBaseWeight status category totalScore)"

section \<open>The same program on IEEE doubles\<close>

text \<open>
  Three of the properties below depend on what a JavaScript \<open>number\<close> really is: a
  binary64 value, or one of \<open>Infinity\<close>, \<open>-Infinity\<close> and \<open>NaN\<close>. This second embedding keeps
  them. A finite number is the real it denotes (\<open>Fin\<close>); every arithmetic operation
  computes the exact result and rounds it to the nearest double, ties to even, with
  gradual underflow, and overflows to an infinity beyond the largest double. Comparisons
  with \<open>NaN\<close> are false. The sign of zero is not kept: \<open>1 / 0\<close> is \<open>Infinity\<close>, as for the
  source's \<open>+0\<close>. \<open>Math.sqrt\<close> is correctly rounded, and \<open>x ** 2\<close> is the rounded product
  \<open>x * x\<close>. \<open>Math.exp\<close> and \<open>Math.log\<close> are written as correctly rounded too, which the
  language does not promise; the theorems below use them only at 0 and at the
  infinities, where the language fixes their values. Functions of this embedding carry
  the suffix \<open>J\<close>.
\<close>

datatype number = Fin real | PInf | NInf | NaN

subsection \<open>Rounding\<close>

definition ulp_exponent :: "real \<Rightarrow> int" where
  "ulp_exponent x = max \<lfloor>log 2 \<bar>x\<bar>\<rfloor> (- 1022) - 52"

definition round_even :: "real \<Rightarrow> int" where
  "round_even y =
     (let n = \<lfloor>y\<rfloor>;
          r = y - of_int n
      in if r < 1 / 2 then n
         else if 1 / 2 < r then n + 1
         else if even n then n else n + 1)"

definition rnd :: "real \<Rightarrow> real" where
  "rnd x = of_int (round_even (x / 2 powi ulp_exponent x)) * 2 powi ulp_exponent x"

definition MAX_VALUE :: real where
  "MAX_VALUE = (2 ^ 53 - 1) * 2 ^ 971"

definition fl :: "real \<Rightarrow> number" where
  "fl x =
     (if rnd x > MAX_VALUE then PInf
      else if rnd x < - MAX_VALUE then NInf
      else Fin (rnd x))"

subsection \<open>Operators and \<open>Math\<close> functions\<close>

fun js_neg :: "number \<Rightarrow> number" where
  "js_neg (Fin x) = Fin (- x)"
| "js_neg PInf = NInf"
| "js_neg NInf = PInf"
| "js_neg NaN = NaN"

fun js_add :: "number \<Rightarrow> number \<Rightarrow> number" where
  "js_add NaN y = NaN"
| "js_add x NaN = NaN"
| "js_add (Fin x) (Fin y) = fl (x + y)"
| "js_add PInf NInf = NaN"
| "js_add NInf PInf = NaN"
| "js_add PInf y = PInf"
| "js_add x PInf = PInf"
| "js_add NInf y = NInf"
| "js_add x NInf = NInf"

definition js_sub :: "number \<Rightarrow> number \<Rightarrow> number" where
  "js_sub x y = js_add x (js_neg y)"

text \<open>The sign of a number that is not \<open>NaN\<close>: 1, 0 or -1.\<close>

fun sign_of :: "number \<Rightarrow> real" where
  "sign_of (Fin x) = sgn x"
| "sign_of PInf = 1"
| "sign_of NInf = - 1"
| "sign_of NaN = 0"

definition inf_of_sign :: "real \<Rightarrow> number" where
  "inf_of_sign s = (if s = 0 then NaN else if 0 < s then PInf else NInf)"

fun js_mul :: "number \<Rightarrow> number \<Rightarrow> number" where
  "js_mul NaN y = NaN"
| "js_mul x NaN = NaN"
| "js_mul (Fin x) (Fin y) = fl (x * y)"
| "js_mul x y = inf_of_sign (sign_of x * sign_of y)"

fun js_div :: "number \<Rightarrow> number \<Rightarrow> number" where
  "js_div NaN y = NaN"
| "js_div x NaN = NaN"
| "js_div (Fin x) (Fin y) = (if y = 0 then inf_of_sign (sgn x) else fl (x / y))"
| "js_div (Fin x) y = Fin 0"
| "js_div x (Fin y) = inf_of_sign (sign_of x * (if y < 0 then - 1 else 1))"
| "js_div x y = NaN"

fun js_lt :: "number \<Rightarrow> number \<Rightarrow> bool" where
  "js_lt NaN y = False"
| "js_lt x NaN = False"
| "js_lt (Fin x) (Fin y) = (x < y)"
| "js_lt x NInf = False"
| "js_lt PInf y = False"
| "js_lt x y = True"

fun js_le :: "number \<Rightarrow> number \<Rightarrow> bool" where
  "js_le NaN y = False"
| "js_le x NaN = False"
| "js_le x y = (x = y \<or> js_lt x y)"

definition js_gt :: "number \<Rightarrow> number \<Rightarrow> bool" where
  "js_gt x y = js_lt y x"

definition js_ge :: "number \<Rightarrow> number \<Rightarrow> bool" where
  "js_ge x y = js_le y x"

fun js_abs :: "number \<Rightarrow> number" where
  "js_abs (Fin x) = Fin \<bar>x\<bar>"
| "js_abs PInf = PInf"
| "js_abs NInf = PInf"
| "js_abs NaN = NaN"

fun js_isFinite :: "number \<Rightarrow> bool" where
  "js_isFinite (Fin x) = True"
| "js_isFinite x = False"

definition js_min :: "number \<Rightarrow> number \<Rightarrow> number" where
  "js_min x y = (if x = NaN \<or> y = NaN then NaN else if js_lt y x then y else x)"

definition js_max :: "number \<Rightarrow> number \<Rightarrow> number" where
  "js_max x y = (if x = NaN \<or> y = NaN then NaN else if js_lt x y then y else x)"

fun js_sqrt :: "number \<Rightarrow> number" where
  "js_sqrt (Fin x) = (if x < 0 then NaN else fl (sqrt x))"
| "js_sqrt PInf = PInf"
| "js_sqrt x = NaN"

fun js_exp :: "number \<Rightarrow> number" where
  "js_exp (Fin x) = fl (exp x)"
| "js_exp PInf = PInf"
| "js_exp NInf = Fin 0"
| "js_exp NaN = NaN"

fun js_log :: "number \<Rightarrow> number" where
  "js_log (Fin x) = (if x < 0 then NaN else if x = 0 then NInf else fl (ln x))"
| "js_log PInf = PInf"
| "js_log x = NaN"

text \<open>\<open>x ** 2\<close>.\<close>

definition js_pow2 :: "number \<Rightarrow> number" where
  "js_pow2 x = js_mul x x"

subsection \<open>Constants\<close>

text \<open>
  A decimal literal of the source is the double nearest to it; the integers and 0.5 are
  doubles themselves.
\<close>

definition DEFAULT_MUJ :: number where "DEFAULT_MUJ = Fin 1500"
definition DEFAULT_PHIJ :: number where "DEFAULT_PHIJ = Fin 250"
definition DEFAULT_SIGMAJ :: number where "DEFAULT_SIGMAJ = fl (6 / 100)"
definition TAUJ :: number where "TAUJ = Fin (1 / 2)"
definition EPSILONJ :: number where "EPSILONJ = fl (1 / 1000000)"
definition SCALING_FACTORJ :: number where "SCALING_FACTORJ = fl (1737178 / 10000)"
definition CLAMP_EPSILONJ :: number where "CLAMP_EPSILONJ = fl (1 / 10)"

text \<open>\<open>Math.PI\<close> is the double \<open>884279719003555 / 2 ** 48\<close>.\<close>

definition MATH_PI :: number where "MATH_PI = Fin (884279719003555 / 2 ^ 48)"

subsection \<open>The functions of glicko.ts\<close>

record PlayerRatingJ =
  muJ :: number
  phiJ :: number
  sigmaJ :: number

type_synonym Glicko2RatingJ = PlayerRatingJ

record GlickoTRUpdateJ =
  player_newJ :: PlayerRatingJ
  opponent_newJ :: PlayerRatingJ

definition createDefaultRatingJ :: PlayerRatingJ where
  "createDefaultRatingJ = \<lparr>muJ = DEFAULT_MUJ, phiJ = DEFAULT_PHIJ, sigmaJ = DEFAULT_SIGMAJ\<rparr>"

definition scaleDownJ :: "PlayerRatingJ \<Rightarrow> Glicko2RatingJ" where
  "scaleDownJ rating =
     (let mu_g2 = js_div (js_sub (muJ rating) DEFAULT_MUJ) SCALING_FACTORJ;
          phi_g2 = js_div (phiJ rating) SCALING_FACTORJ
      in \<lparr>muJ = mu_g2, phiJ = phi_g2, sigmaJ = sigmaJ rating\<rparr>)"

definition scaleUpJ :: "Glicko2RatingJ \<Rightarrow> PlayerRatingJ" where
  "scaleUpJ rating_g2 =
     (let mu0 = js_add (js_mul (muJ rating_g2) SCALING_FACTORJ) DEFAULT_MUJ;
          phi' = js_mul (phiJ rating_g2) SCALING_FACTORJ;
          min_rating = Fin 0;
          max_rating = Fin 5000;
          mu' = js_max min_rating (js_min mu0 max_rating)
      in \<lparr>muJ = mu', phiJ = phi', sigmaJ = sigmaJ rating_g2\<rparr>)"

definition reduceImpactJ :: "Glicko2RatingJ \<Rightarrow> number" where
  "reduceImpactJ rating_g2 =
     js_div (Fin 1)
       (js_sqrt (js_add (Fin 1)
          (js_div (js_mul (Fin 3) (js_pow2 (phiJ rating_g2))) (js_pow2 MATH_PI))))"

definition expectScoreJ :: "Glicko2RatingJ \<Rightarrow> Glicko2RatingJ \<Rightarrow> number \<Rightarrow> number" where
  "expectScoreJ rating_g2 other_rating_g2 impact =
     (let exponent = js_mul (js_neg impact) (js_sub (muJ rating_g2) (muJ other_rating_g2));
          score = js_div (Fin 1) (js_add (Fin 1) (js_exp exponent))
      in js_max CLAMP_EPSILONJ (js_min score (js_sub (Fin 1) CLAMP_EPSILONJ)))"

definition calculateMatchWeightJ :: "string \<Rightarrow> number \<Rightarrow> number \<Rightarrow> number" where
  "calculateMatchWeightJ status playerGames opponentGames =
     (if status = ''walkover'' then Fin 0
      else if status = ''completed'' then Fin 1
      else if status = ''retired'' then
        (let total_games = js_add playerGames opponentGames in
         if js_le total_games (Fin 0) then Fin 0
         else
           let threshold_games = Fin 18;
               max_retirement_weight = fl (8 / 10)
           in js_mul (js_min (Fin 1) (js_div total_games threshold_games)) max_retirement_weight)
      else Fin 0)"

definition fJ :: "number \<Rightarrow> number \<Rightarrow> number \<Rightarrow> number \<Rightarrow> number \<Rightarrow> number" where
  "fJ phi' variance difference_squared alpha x =
     (let tau_squared = js_pow2 TAUJ;
          exp_x = js_exp x;
          tmp = js_add (js_add (js_pow2 phi') variance) exp_x
      in if js_lt tmp (fl (1 / 10 ^ 15))
         then js_sub (js_div (js_sub x alpha) tau_squared) (Fin 1)
         else
           let a_term =
                 js_div
                   (js_mul exp_x
                      (js_sub (js_sub (js_sub difference_squared (js_pow2 phi')) variance) exp_x))
                   (js_mul (Fin 2) (js_pow2 tmp));
               b_term = js_div (js_sub x alpha) tau_squared
           in js_sub a_term b_term)"

function find_kJ :: "(number \<Rightarrow> number) \<Rightarrow> number \<Rightarrow> nat \<Rightarrow> nat" where
  "find_kJ g alpha k =
     (if k < 100 \<and> js_ge (js_sub alpha (js_mul (Fin (real k)) TAUJ)) (Fin (- 700))
         \<and> js_ge (g (js_sub alpha (js_mul (Fin (real k)) TAUJ))) (Fin 0)
      then find_kJ g alpha (k + 1) else k)"
  by pat_completeness auto
termination
  by (relation "measure (\<lambda>(g, alpha, k). 100 - k)") auto

definition next_cJ ::
    "(number \<Rightarrow> number) \<Rightarrow> number \<Rightarrow> number \<Rightarrow> number \<Rightarrow> number \<Rightarrow> (number \<times> number) option" where
  "next_cJ g a b f_a f_b =
     (let c0 = js_add a (js_div (js_mul (js_sub a b) f_a) (js_sub f_b f_a));
          c = (if \<not> js_isFinite c0 then js_div (js_add a b) (Fin 2) else c0);
          f_c = g c
      in if \<not> js_isFinite f_c then
           (if js_lt (js_abs (js_sub b a)) (js_mul EPSILONJ (Fin 10)) then None
            else
              let c = js_div (js_add a b) (Fin 2);
                  f_c = g c
              in if \<not> js_isFinite f_c then None else Some (c, f_c))
         else Some (c, f_c))"

definition next_aJ :: "number \<Rightarrow> number \<Rightarrow> number \<Rightarrow> number \<Rightarrow> number \<Rightarrow> number \<times> number" where
  "next_aJ a b f_a f_b f_c =
     (if js_lt (js_mul f_c f_b) (Fin 0) then (b, f_b)
      else
        let safe_denom = js_add f_b f_c
        in if js_lt (js_abs safe_denom) (fl (1 / 10 ^ 15)) then (a, js_mul f_a (Fin (1 / 2)))
           else (a, js_mul f_a (js_div f_b safe_denom)))"

function refineJ ::
    "(number \<Rightarrow> number) \<Rightarrow> number \<Rightarrow> number \<Rightarrow> number \<Rightarrow> number \<Rightarrow> number \<Rightarrow> number \<Rightarrow> nat \<Rightarrow> number" where
  "refineJ g sigma' variance a b f_a f_b iter =
     (if js_gt (js_abs (js_sub b a)) EPSILONJ \<and> iter < 100 then
        (if \<not> js_isFinite f_a \<or> \<not> js_isFinite f_b then sigma'
         else if js_ge (js_mul f_a f_b) (Fin 0)
         then (if js_lt variance (Fin 1000000) then sigma' else js_mul sigma' (fl (9 / 10)))
         else
           (case next_cJ g a b f_a f_b of
              None \<Rightarrow> js_exp (js_div b (Fin 2))
            | Some (c, f_c) \<Rightarrow>
                (case next_aJ a b f_a f_b f_c of
                   (a', f_a') \<Rightarrow>
                     if js_lt (js_abs (js_sub f_c f_a')) EPSILONJ then js_exp (js_div c (Fin 2))
                     else refineJ g sigma' variance a' c f_a' f_c (iter + 1))))
      else js_exp (js_div b (Fin 2)))"
  by pat_completeness auto
termination
  by (relation "measure (\<lambda>(g, s, v, a, b, f_a, f_b, iter). 100 - iter)") auto

definition determineSigmaJ :: "Glicko2RatingJ \<Rightarrow> number \<Rightarrow> number \<Rightarrow> number" where
  "determineSigmaJ rating_g2 difference variance =
     (let phi' = phiJ rating_g2;
          sigma' = sigmaJ rating_g2;
          difference_squared = js_pow2 difference;
          alpha = js_log (js_pow2 sigma');
          g = fJ phi' variance difference_squared alpha;
          a = alpha;
          b = (if js_gt difference_squared (js_add (js_pow2 phi') variance)
               then js_log (js_sub (js_sub difference_squared (js_pow2 phi')) variance)
               else js_sub alpha (js_mul (Fin (real (find_kJ g alpha 1))) TAUJ));
          f_a = g a;
          f_b = g b
      in refineJ g sigma' variance a b f_a f_b 0)"

definition calculateGlickoTRUpdateJ ::
    "PlayerRatingJ \<Rightarrow> PlayerRatingJ \<Rightarrow> number \<Rightarrow> number \<Rightarrow> string \<Rightarrow> GlickoTRUpdateJ" where
  "calculateGlickoTRUpdateJ playerRating opponentRating playerGames opponentGames status =
     (let matchWeight = calculateMatchWeightJ status playerGames opponentGames in
      if js_le matchWeight (Fin 0)
      then \<lparr>player_newJ = playerRating, opponent_newJ = opponentRating\<rparr>
      else
        let player_g2 = scaleDownJ playerRating;
            opponent_g2 = scaleDownJ opponentRating;
            impactPlayer = reduceImpactJ opponent_g2;
            expectedScorePlayer = expectScoreJ player_g2 opponent_g2 impactPlayer;
            totalGames = js_add playerGames opponentGames;
            actualScorePlayer =
              (if js_le totalGames (Fin 0) then Fin (1 / 2) else js_div playerGames totalGames);
            variancePlayer =
              js_div (Fin 1)
                (js_mul (js_mul (js_pow2 impactPlayer) expectedScorePlayer)
                   (js_sub (Fin 1) expectedScorePlayer));
            clampedVariancePlayer = js_min variancePlayer (Fin 1000000);
            diffTermPlayer =
              js_mul (js_mul matchWeight impactPlayer)
                (js_sub actualScorePlayer expectedScorePlayer);
            varianceForSigmaPlayer = clampedVariancePlayer;
            varianceInvTermPlayer =
              js_mul (js_mul (js_mul matchWeight (js_pow2 impactPlayer)) expectedScorePlayer)
                (js_sub (Fin 1) expectedScorePlayer);
            newSigmaPlayer = determineSigmaJ player_g2 diffTermPlayer varianceForSigmaPlayer;
            phi_star_player =
              js_sqrt (js_add (js_pow2 (phiJ player_g2)) (js_pow2 newSigmaPlayer));
            newPhiPlayer_g2 =
              js_div (Fin 1)
                (js_sqrt (js_add (js_div (Fin 1) (js_pow2 phi_star_player)) varianceInvTermPlayer));
            newMuPlayer_g2 =
              js_add (muJ player_g2) (js_mul (js_pow2 newPhiPlayer_g2) diffTermPlayer);
            updatedPlayer_g2 =
              \<lparr>muJ = newMuPlayer_g2, phiJ = newPhiPlayer_g2, sigmaJ = newSigmaPlayer\<rparr>;
            impactOpponent = reduceImpactJ player_g2;
            expectedScoreOpponent = expectScoreJ opponent_g2 player_g2 impactOpponent;
            actualScoreOpponent = js_sub (Fin 1) actualScorePlayer;
            varianceOpponent =
              js_div (Fin 1)
                (js_mul (js_mul (js_pow2 impactOpponent) expectedScoreOpponent)
                   (js_sub (Fin 1) expectedScoreOpponent));
            clampedVarianceOpponent = js_min varianceOpponent (Fin 1000000);
            diffTermOpponent =
              js_mul (js_mul matchWeight impactOpponent)
                (js_sub actualScoreOpponent expectedScoreOpponent);
            varianceForSigmaOpponent = clampedVarianceOpponent;
            varianceInvTermOpponent =
              js_mul (js_mul (js_mul matchWeight (js_pow2 impactOpponent)) expectedScoreOpponent)
                (js_sub (Fin 1) expectedScoreOpponent);
            newSigmaOpponent =
              determineSigmaJ opponent_g2 diffTermOpponent varianceForSigmaOpponent;
            phi_star_opponent =
              js_sqrt (js_add (js_pow2 (phiJ opponent_g2)) (js_pow2 newSigmaOpponent));
            newPhiOpponent_g2 =
              js_div (Fin 1)
                (js_sqrt
                   (js_add (js_div (Fin 1) (js_pow2 phi_star_opponent)) varianceInvTermOpponent));
            newMuOpponent_g2 =
              js_add (muJ opponent_g2) (js_mul (js_pow2 newPhiOpponent_g2) diffTermOpponent);
            updatedOpponent_g2 =
              \<lparr>muJ = newMuOpponent_g2, phiJ = newPhiOpponent_g2, sigmaJ = newSigmaOpponent\<rparr>;
            finalPlayerRating = scaleUpJ updatedPlayer_g2;
            finalOpponentRating = scaleUpJ updatedOpponent_g2
        in \<lparr>player_newJ = finalPlayerRating, opponent_newJ = finalOpponentRating\<rparr>)"

subsection \<open>Auxiliary notions for the properties on doubles\<close>

text \<open>
  The score shares of the two perspectives: the player's is \<open>playerGames / totalGames\<close>
  (0.5 for a total of 0 or less), the opponent's is \<open>1.0 - actualScorePlayer\<close>.
\<close>

definition actualScorePlayerJ :: "number \<Rightarrow> number \<Rightarrow> number" where
  "actualScorePlayerJ playerGames opponentGames =
     (let totalGames = js_add playerGames opponentGames
      in if js_le totalGames (Fin 0) then Fin (1 / 2) else js_div playerGames totalGames)"

definition actualScoreOpponentJ :: "number \<Rightarrow> number \<Rightarrow> number" where
  "actualScoreOpponentJ playerGames opponentGames =
     js_sub (Fin 1) (actualScorePlayerJ playerGames opponentGames)"

text \<open>
  Steps 3 to 9 for one competitor, which the source writes out once for the player and
  once for the opponent; \<open>update_sidesJ\<close> below proves that the update is these two calls.
\<close>

definition rate_sideJ ::
    "number \<Rightarrow> Glicko2RatingJ \<Rightarrow> Glicko2RatingJ \<Rightarrow> number \<Rightarrow> PlayerRatingJ" where
  "rate_sideJ matchWeight self_g2 other_g2 actualScore =
     (let impact = reduceImpactJ other_g2;
          expectedScore = expectScoreJ self_g2 other_g2 impact;
          variance =
            js_div (Fin 1)
              (js_mul (js_mul (js_pow2 impact) expectedScore) (js_sub (Fin 1) expectedScore));
          clampedVariance = js_min variance (Fin 1000000);
          diffTerm = js_mul (js_mul matchWeight impact) (js_sub actualScore expectedScore);
          varianceInvTerm =
            js_mul (js_mul (js_mul matchWeight (js_pow2 impact)) expectedScore)
              (js_sub (Fin 1) expectedScore);
          newSigma = determineSigmaJ self_g2 diffTerm clampedVariance;
          phi_star = js_sqrt (js_add (js_pow2 (phiJ self_g2)) (js_pow2 newSigma));
          newPhi_g2 =
            js_div (Fin 1) (js_sqrt (js_add (js_div (Fin 1) (js_pow2 phi_star)) varianceInvTerm));
          newMu_g2 = js_add (muJ self_g2) (js_mul (js_pow2 newPhi_g2) diffTerm)
      in scaleUpJ \<lparr>muJ = newMu_g2, phiJ = newPhi_g2, sigmaJ = newSigma\<rparr>)"

declare find_kJ.simps [simp del]
declare refineJ.simps [simp del]
declare find_k.simps [simp del]
declare refine.simps [simp del]

section \<open>Properties\<close>

subsection \<open>Match weight and the identity update\<close>

text \<open>
  C3. When the status is \<open>walkover\<close> the weight is 0 and \<open>calculateGlickoTRUpdate\<close> returns
  the two input ratings themselves, whatever the ratings and the scores are: rating,
  deviation and volatility of each competitor are those of the input.
\<close>

theorem walkover_unchanged:
  "calculateMatchWeight ''walkover'' playerGames opponentGames = 0 \<and>
   calculateGlickoTRUpdate playerRating opponentRating playerGames opponentGames ''walkover'' =
     \<lparr>player_new = playerRating, opponent_new = opponentRating\<rparr>"
  by (simp add: calculateGlickoTRUpdate_def calculateMatchWeight_def)

text \<open>
  C10. For a status string other than \<open>completed\<close>, \<open>retired\<close> and \<open>walkover\<close> the weight is 0
  and the update returns both input ratings unchanged; the function is total, so no
  error is raised.
\<close>

theorem unknown_status_unchanged:
  assumes "status \<noteq> ''completed''" and "status \<noteq> ''retired''" and "status \<noteq> ''walkover''"
  shows "calculateMatchWeight status playerGames opponentGames = 0 \<and>
         calculateGlickoTRUpdate playerRating opponentRating playerGames opponentGames status =
           \<lparr>player_new = playerRating, opponent_new = opponentRating\<rparr>"
  using assms by (simp add: calculateGlickoTRUpdate_def calculateMatchWeight_def)

theorem unknown_status_unchanged_witness:
  "calculateMatchWeight ''tiebreak'' 7 6 = 0 \<and>
   calculateGlickoTRUpdate createDefaultRating createDefaultRating 7 6 ''tiebreak'' =
     \<lparr>player_new = createDefaultRating, opponent_new = createDefaultRating\<rparr>"
  using unknown_status_unchanged [of "''tiebreak''" 7 6 createDefaultRating createDefaultRating]
  by simp

text \<open>
  C4. For a retired contest the weight is \<open>min(1, totalScore/18) * 0.8\<close> (scores are not
  negative, so the total score is 0 or more): 0.4 at a total of 9 and 0.8 from a total
  of 18 on. It is 0 when the total score is 0 or less.
\<close>

theorem retired_weight:
  "(0 \<le> playerGames + opponentGames \<longrightarrow>
      calculateMatchWeight ''retired'' playerGames opponentGames =
        min 1 ((playerGames + opponentGames) / 18) * (8 / 10)) \<and>
   (playerGames + opponentGames = 9 \<longrightarrow>
      calculateMatchWeight ''retired'' playerGames opponentGames = 4 / 10) \<and>
   (18 \<le> playerGames + opponentGames \<longrightarrow>
      calculateMatchWeight ''retired'' playerGames opponentGames = 8 / 10) \<and>
   (playerGames + opponentGames \<le> 0 \<longrightarrow>
      calculateMatchWeight ''retired'' playerGames opponentGames = 0)"
  by (simp add: calculateMatchWeight_def Let_def min_def)

theorem retired_weight_witness:
  "calculateMatchWeight ''retired'' 5 4 = 4 / 10 \<and>
   calculateMatchWeight ''retired'' 12 10 = 8 / 10 \<and>
   calculateMatchWeight ''retired'' 0 0 = 0 \<and>
   calculateMatchWeight ''retired'' 3 3 = min 1 ((3 + 3) / 18) * (8 / 10)"
  using retired_weight [of 5 4] retired_weight [of 12 10] retired_weight [of 0 0]
    retired_weight [of 3 3]
  by simp

text \<open>
  C2, as the code has it. The claim gives a tiebreak contest the weight 0.6 and multiplies
  the weight of a public contest by 1.2. \<open>calculateMatchWeight\<close> has no category and no
  visibility input: its only inputs are the status and the two scores. A completed public
  tiebreak contest scored 6 to 0 has the weight 0.72 in the specification's policy and the
  weight 1 in the code.
\<close>

theorem public_tiebreak_weight_counterexample:
  "specWeight Completed Tiebreak True (6 + 0) = 72 / 100 \<and>
   calculateMatchWeight (status_string Completed) 6 0 = 1 \<and>
   calculateMatchWeight (status_string Completed) 6 0 \<noteq> specWeight Completed Tiebreak True (6 + 0)"
  by (simp add: calculateMatchWeight_def specWeight_def specBaseWeight_def)

text \<open>
  C2, amended. For each of the three statuses and all scores, the weight the code
  computes is the one the specification's policy gives a standard contest that is not
  public; and for every status string the weight lies between 0 and 1, so neither a
  weight above 1 nor a multiplier exists.
\<close>

theorem weight_is_standard_nonpublic:
  "calculateMatchWeight (status_string s) playerGames opponentGames =
     specWeight s Standard False (playerGames + opponentGames) \<and>
   0 \<le> calculateMatchWeight status playerGames opponentGames \<and>
   calculateMatchWeight status playerGames opponentGames \<le> 1"
  by (cases s)
    (simp_all add: calculateMatchWeight_def specWeight_def specBaseWeight_def Let_def min_def)

subsection \<open>Expected score\<close>

text \<open>
  C9. \<open>expectScore\<close> is the logistic value \<open>1 / (1 + exp(-impact * (mu_self - mu_opp)))\<close>
  clamped into \<open>[0.1, 0.9]\<close>, for all ratings and every impact; it is never 0 and never 1.
\<close>

theorem expectScore_clamped:
  "expectScore self_g2 other_g2 impact =
     max (1 / 10) (min (1 / (1 + exp (- impact * (mu self_g2 - mu other_g2)))) (9 / 10)) \<and>
   1 / 10 \<le> expectScore self_g2 other_g2 impact \<and>
   expectScore self_g2 other_g2 impact \<le> 9 / 10 \<and>
   expectScore self_g2 other_g2 impact \<noteq> 0 \<and>
   expectScore self_g2 other_g2 impact \<noteq> 1"
  by (simp add: expectScore_def Let_def CLAMP_EPSILON_def max_def min_def)

subsection \<open>The two sides of the update\<close>

lemma update_sides:
  "calculateGlickoTRUpdate p q pg og st =
     (let w = calculateMatchWeight st pg og;
          act = (if pg + og \<le> 0 then 5 / 10 else pg / (pg + og))
      in if w \<le> 0 then \<lparr>player_new = p, opponent_new = q\<rparr>
         else \<lparr>player_new = rate_side w (scaleDown p) (scaleDown q) act,
               opponent_new = rate_side w (scaleDown q) (scaleDown p) (1 - act)\<rparr>)"
  by (simp add: calculateGlickoTRUpdate_def rate_side_def Let_def)

subsection \<open>The volatility solver\<close>

text \<open>The candidate of an iteration lies between the two ends of a valid bracket.\<close>

lemma secant_between:
  fixes a b f_a f_b :: real
  assumes "f_a * f_b < 0"
  shows "min a b \<le> a + (a - b) * f_a / (f_b - f_a) \<and> a + (a - b) * f_a / (f_b - f_a) \<le> max a b"
proof -
  define t where "t = f_a / (f_a - f_b)"
  from assms have signs: "(0 < f_a \<and> f_b < 0) \<or> (f_a < 0 \<and> 0 < f_b)"
    by (auto simp: mult_less_0_iff)
  then have t01: "0 < t \<and> t < 1"
    unfolding t_def by (auto simp: field_simps zero_less_divide_iff)
  from signs have ne: "f_b - f_a \<noteq> 0" by auto
  have "f_a / (f_b - f_a) = - t"
    unfolding t_def using ne by (simp add: field_simps)
  moreover have "(a - b) * f_a / (f_b - f_a) = (a - b) * (f_a / (f_b - f_a))"
    by simp
  ultimately have "(a - b) * f_a / (f_b - f_a) = (a - b) * (- t)"
    by (simp only:)
  then have c: "a + (a - b) * f_a / (f_b - f_a) = a + (b - a) * t"
    by (simp add: algebra_simps)
  show ?thesis
  proof (cases "a \<le> b")
    case True
    then have "0 \<le> (b - a) * t" "(b - a) * t \<le> b - a"
      using t01 by (simp_all add: mult_left_le)
    moreover from True have "min a b = a" "max a b = b" by simp_all
    ultimately show ?thesis unfolding c by linarith
  next
    case False
    then have "(a - b) * t \<le> a - b" "0 \<le> (a - b) * t"
      using t01 by (simp_all add: mult_left_le)
    moreover have "(b - a) * t = - ((a - b) * t)" by (simp add: algebra_simps)
    moreover from False have "min a b = b" "max a b = a" by simp_all
    ultimately show ?thesis unfolding c by linarith
  qed
qed

lemma next_c_between:
  assumes "f_a * f_b < 0" "next_c g a b f_a f_b = Some (c, f_c)"
  shows "min a b \<le> c \<and> c \<le> max a b"
proof -
  from assms(1) have "f_b - f_a \<noteq> 0" by (auto simp: mult_less_0_iff)
  with assms(2) have "c = a + (a - b) * f_a / (f_b - f_a)"
    by (simp add: next_c_def isFinite_def Let_def)
  with secant_between[OF assms(1)] show ?thesis by simp
qed

lemma next_a_cases: "next_a a b f_a f_b f_c = (a', f_a') \<Longrightarrow> a' = a \<or> a' = b"
  by (auto simp: next_a_def Let_def split: if_splits)

lemma refine_exit:
  "\<not> (\<bar>b - a\<bar> > EPSILON \<and> iter < 100) \<Longrightarrow> refine g s v a b f_a f_b iter = exp (b / 2)"
  by (subst refine.simps) (simp only: if_False)

lemma refine_invalid:
  "\<bar>b - a\<bar> > EPSILON \<Longrightarrow> iter < 100 \<Longrightarrow> f_a * f_b \<ge> 0 \<Longrightarrow>
   refine g s v a b f_a f_b iter = (if v < 10 ^ 6 then s else s * (9 / 10))"
  by (subst refine.simps) (simp add: isFinite_def)

lemma refine_break:
  "\<bar>b - a\<bar> > EPSILON \<Longrightarrow> iter < 100 \<Longrightarrow> f_a * f_b < 0 \<Longrightarrow> next_c g a b f_a f_b = None \<Longrightarrow>
   refine g s v a b f_a f_b iter = exp (b / 2)"
  by (subst refine.simps) (simp add: isFinite_def)

lemma refine_step:
  "\<bar>b - a\<bar> > EPSILON \<Longrightarrow> iter < 100 \<Longrightarrow> f_a * f_b < 0 \<Longrightarrow>
   next_c g a b f_a f_b = Some (c, f_c) \<Longrightarrow> next_a a b f_a f_b f_c = (a', f_a') \<Longrightarrow>
   refine g s v a b f_a f_b iter =
     (if \<bar>f_c - f_a'\<bar> < EPSILON then exp (c / 2) else refine g s v a' c f_a' f_c (iter + 1))"
  by (subst refine.simps) (simp add: isFinite_def)

lemma refine_le:
  assumes "a \<le> U" "b \<le> U" "s \<le> exp (U / 2)" "0 \<le> s"
  shows "refine g s v a b f_a f_b iter \<le> exp (U / 2)"
  using assms
proof (induction g s v a b f_a f_b iter rule: refine.induct)
  case (1 g s v a b f_a f_b iter)
  show ?case
  proof (cases "\<bar>b - a\<bar> > EPSILON \<and> iter < 100")
    case False
    then show ?thesis using 1(3) by (simp add: refine_exit)
  next
    case loop: True
    show ?thesis
    proof (cases "f_a * f_b \<ge> 0")
      case True
      have "s * (9 / 10) \<le> s" using 1(5) by simp
      then show ?thesis using loop True 1(4)
        by (simp add: refine_invalid)
    next
      case bracket: False
      then have lt: "f_a * f_b < 0" by simp
      show ?thesis
      proof (cases "next_c g a b f_a f_b")
        case None
        then show ?thesis using loop lt 1(3)
          by (simp add: refine_break)
      next
        case (Some p)
        obtain c f_c where p: "p = (c, f_c)" by (cases p)
        obtain a' f_a' where na: "next_a a b f_a f_b f_c = (a', f_a')"
          by (cases "next_a a b f_a f_b f_c")
        from next_c_between[OF lt] Some p have "c \<le> max a b" by simp
        with 1(2,3) have cU: "c \<le> U" by simp
        from next_a_cases[OF na] 1(2,3) have aU: "a' \<le> U" by auto
        have st: "refine g s v a b f_a f_b iter =
          (if \<bar>f_c - f_a'\<bar> < EPSILON then exp (c / 2) else refine g s v a' c f_a' f_c (iter + 1))"
          using loop lt Some p na by (intro refine_step) simp_all
        show ?thesis
        proof (cases "\<bar>f_c - f_a'\<bar> < EPSILON")
          case True
          then show ?thesis using st cU by simp
        next
          case False
          have "refine g s v a' c f_a' f_c (iter + 1) \<le> exp (U / 2)"
            using 1(1) loop bracket Some p na False aU cU 1(4,5)
            by (simp add: isFinite_def)
          then show ?thesis using st False by simp
        qed
      qed
    qed
  qed
qed

lemma refine_pos:
  assumes "0 < s"
  shows "0 < refine g s v a b f_a f_b iter"
  using assms
proof (induction g s v a b f_a f_b iter rule: refine.induct)
  case (1 g s v a b f_a f_b iter)
  show ?case
    apply (subst refine.simps)
    using 1 by (auto simp: isFinite_def split: option.splits prod.splits)
qed

text \<open>\<open>determineSigma\<close> is the loop entered in \<open>solver_start\<close>, and every full pass through the
  loop body leaves the value it will return unchanged.\<close>

lemma determineSigma_refine:
  "determineSigma r d v =
     (if sigma r = 0 then 0
      else case solver_start r d v of
        (a, b, f_a, f_b, iter) \<Rightarrow> refine (solver_f r d v) (sigma r) v a b f_a f_b iter)"
  by (simp add: determineSigma_def solver_start_def solver_f_def Let_def)

lemma refine_solver_step:
  assumes "solver_step g (a, b, f_a, f_b, iter) = Some (a', b', f_a', f_b', iter')"
  shows "refine g s v a b f_a f_b iter = refine g s v a' b' f_a' f_b' iter'"
proof -
  from assms have loop: "\<bar>b - a\<bar> > EPSILON" "iter < 100" "f_a * f_b < 0"
    by (simp_all split: if_splits)
  with assms obtain c f_c where nc: "next_c g a b f_a f_b = Some (c, f_c)"
    by (auto split: option.splits)
  obtain a2 f_a2 where na: "next_a a b f_a f_b f_c = (a2, f_a2)"
    by (cases "next_a a b f_a f_b f_c")
  from assms loop nc na have "\<not> \<bar>f_c - f_a2\<bar> < EPSILON"
    and "a' = a2" "b' = c" "f_a' = f_a2" "f_b' = f_c" "iter' = iter + 1"
    by (auto split: if_splits)
  with refine_step [OF loop nc na, of s v] show ?thesis by simp
qed

lemma iterates_refine:
  assumes "iterates g s t"
  shows "(case s of (a, b, f_a, f_b, iter) \<Rightarrow> refine g sg v a b f_a f_b iter) =
         (case t of (a, b, f_a, f_b, iter) \<Rightarrow> refine g sg v a b f_a f_b iter)"
  using assms
proof (induction rule: iterates.induct)
  case (iterates_start s)
  show ?case by simp
next
  case (iterates_step s t u)
  obtain a b f_a f_b iter where t: "t = (a, b, f_a, f_b, iter)" by (cases t)
  obtain a' b' f_a' f_b' iter' where u: "u = (a', b', f_a', f_b', iter')" by (cases u)
  from iterates_step(2) have "refine g sg v a b f_a f_b iter = refine g sg v a' b' f_a' f_b' iter'"
    unfolding t u by (rule refine_solver_step)
  with iterates_step(3) show ?case by (simp add: t u)
qed

text \<open>
  C5. Whenever \<open>f(A) * f(B) >= 0\<close> at the start of a refinement iteration, that is in a state
  \<open>(a, b, f_a, f_b, iter)\<close> the call passes through and in which the loop condition holds,
  \<open>determineSigma\<close> returns the original volatility if the variance is below \<open>1e6\<close>, and the
  volatility times 0.9 otherwise.
\<close>

theorem invalid_bracket_fallback:
  assumes "iterates (solver_f r d v) (solver_start r d v) (a, b, f_a, f_b, iter)"
    and "\<bar>b - a\<bar> > EPSILON" and "iter < 100"
    and "f_a * f_b \<ge> 0"
  shows "determineSigma r d v = (if v < 10 ^ 6 then sigma r else sigma r * (9 / 10))"
proof (cases "sigma r = 0")
  case True
  then show ?thesis by (simp add: determineSigma_refine)
next
  case False
  have "determineSigma r d v = refine (solver_f r d v) (sigma r) v a b f_a f_b iter"
    using False iterates_refine [OF assms(1), of "sigma r" v]
    by (simp add: determineSigma_refine)
  also have "\<dots> = (if v < 10 ^ 6 then sigma r else sigma r * (9 / 10))"
    using assms(2-4) by (rule refine_invalid)
  finally show ?thesis .
qed

lemma tiny_start:
  "solver_start \<lparr>mu = 0, phi = 0, sigma = 1 / 10 ^ 9\<rparr> 0 0 =
     (ln (1 / 10 ^ 18), ln (1 / 10 ^ 18) - 1 / 2, - 1, - 3, 0)"
proof -
  define al :: real where "al = ln (1 / 10 ^ 18)"
  define g where "g = f 0 0 0 al"
  have ea: "exp al = 1 / 10 ^ 18" by (simp add: al_def)
  have "exp (al - 1 / 2) < exp al" by simp
  then have eb: "exp (al - 1 / 2) < 1 / 10 ^ 15" unfolding ea by simp
  have ga: "g al = - 1"
    by (simp add: g_def f_def ea Let_def)
  have gb: "g (al - 1 / 2) = - 3"
    using eb by (simp add: g_def f_def Let_def TAU_def power2_eq_square)
  have k: "find_k g al (Suc 0) = Suc 0"
    by (subst find_k.simps) (simp add: TAU_def gb)
  have sq: "((1::real) / 10 ^ 9)\<^sup>2 = 1 / 10 ^ 18" by (simp add: power2_eq_square)
  show ?thesis
    unfolding solver_start_def solver_f_def Let_def
    by (simp only: PlayerRating.simps sq al_def [symmetric] g_def [symmetric])
      (simp add: k [unfolded g_def] ga [unfolded g_def] gb [unfolded g_def] TAU_def)
qed

theorem invalid_bracket_fallback_witness:
  "solver_start \<lparr>mu = 0, phi = 0, sigma = 1 / 10 ^ 9\<rparr> 0 0 =
     (ln (1 / 10 ^ 18), ln (1 / 10 ^ 18) - 1 / 2, - 1, - 3, 0) \<and>
   determineSigma \<lparr>mu = 0, phi = 0, sigma = 1 / 10 ^ 9\<rparr> 0 0 = 1 / 10 ^ 9"
proof -
  let ?r = "\<lparr>mu = 0, phi = 0, sigma = 1 / 10 ^ 9\<rparr>"
  have "iterates (solver_f ?r 0 0) (solver_start ?r 0 0)
      (ln (1 / 10 ^ 18), ln (1 / 10 ^ 18) - 1 / 2, - 1, - 3, 0)"
    unfolding tiny_start by (rule iterates_start)
  from invalid_bracket_fallback [OF this] have "determineSigma ?r 0 0 = 1 / 10 ^ 9"
    by (simp add: EPSILON_def)
  with tiny_start show ?thesis by simp
qed

subsection \<open>Two default ratings, completed 6 to 0\<close>

text \<open>
  When \<open>difference ** 2\<close> does not exceed \<open>phi ** 2 + variance\<close>, the bracket starts below
  \<open>ln(sigma ** 2)\<close> and stays there, so the new volatility is positive and at most the old.
\<close>

lemma exp_half_ln_sq:
  fixes s :: real
  assumes "0 < s"
  shows "exp (ln (s\<^sup>2) / 2) = s"
proof -
  have "ln (s\<^sup>2) = 2 * ln s"
    using assms by (simp add: ln_realpow)
  then show ?thesis using assms by simp
qed

lemma determineSigma_bounds:
  assumes "0 < sigma r" and "d\<^sup>2 \<le> (phi r)\<^sup>2 + v"
  shows "0 < determineSigma r d v \<and> determineSigma r d v \<le> sigma r"
proof -
  define alpha where "alpha = ln ((sigma r)\<^sup>2)"
  define g where "g = solver_f r d v"
  define b where "b = alpha - real (find_k g alpha 1) * TAU"
  have start: "solver_start r d v = (alpha, b, g alpha, g b, 0)"
    using assms(2) by (simp add: solver_start_def Let_def alpha_def g_def b_def)
  have res: "determineSigma r d v = refine g (sigma r) v alpha b (g alpha) (g b) 0"
    using assms(1) by (simp add: determineSigma_refine start g_def)
  have "0 \<le> real (find_k g alpha 1) * TAU"
    by (simp add: TAU_def)
  then have bU: "b \<le> alpha" by (simp add: b_def)
  have e: "exp (alpha / 2) = sigma r"
    unfolding alpha_def using assms(1) by (rule exp_half_ln_sq)
  have "refine g (sigma r) v alpha b (g alpha) (g b) 0 \<le> exp (alpha / 2)"
    using bU assms(1) by (intro refine_le) (simp_all add: e)
  moreover have "0 < refine g (sigma r) v alpha b (g alpha) (g b) 0"
    using assms(1) by (rule refine_pos)
  ultimately show ?thesis by (simp add: res e)
qed

lemma reduceImpact_bounds:
  "0 < reduceImpact g \<and> (reduceImpact g)\<^sup>2 \<le> 1 \<and> 1 / (1 + 3 * (phi g)\<^sup>2 / 4) \<le> (reduceImpact g)\<^sup>2"
proof -
  define x where "x = 1 + 3 * (phi g)\<^sup>2 / pi\<^sup>2"
  have "0 \<le> 3 * (phi g)\<^sup>2 / pi\<^sup>2" by simp
  then have x1: "1 \<le> x" unfolding x_def by linarith
  then have x0: "0 < x" by linarith
  have "(2::real)\<^sup>2 \<le> pi\<^sup>2" using pi_ge_two by (intro power_mono) simp_all
  then have p4: "4 \<le> pi\<^sup>2" by simp
  have "3 * (phi g)\<^sup>2 / pi\<^sup>2 \<le> 3 * (phi g)\<^sup>2 / 4"
    using p4 by (intro divide_left_mono) simp_all
  then have xu: "x \<le> 1 + 3 * (phi g)\<^sup>2 / 4" unfolding x_def by simp
  have ri: "reduceImpact g = 1 / sqrt x"
    by (simp add: reduceImpact_def x_def)
  have sq: "(reduceImpact g)\<^sup>2 = 1 / x"
    unfolding ri using x0 by (simp add: power_divide)
  have "0 < reduceImpact g" unfolding ri using x0 by simp
  moreover have "1 / x \<le> 1" using x1 by simp
  moreover have "1 / (1 + 3 * (phi g)\<^sup>2 / 4) \<le> 1 / x"
    using x0 xu by (intro divide_left_mono mult_pos_pos) linarith+
  ultimately show ?thesis by (simp add: sq)
qed

lemma expectScore_self: "expectScore g g i = 1 / 2"
  by (simp add: expectScore_def CLAMP_EPSILON_def)

lemma new_phi_bounds:
  assumes "0 < P" and "0 \<le> s2" and "1 / P\<^sup>2 < 1 / (P\<^sup>2 + s2) + w"
  shows "0 < new_phi (sqrt (P\<^sup>2 + s2)) w \<and> new_phi (sqrt (P\<^sup>2 + s2)) w < P"
proof -
  define X where "X = 1 / (P\<^sup>2 + s2) + w"
  have P2: "0 < P\<^sup>2" using assms(1) by simp
  then have pos: "0 < P\<^sup>2 + s2" using assms(2) by (rule add_pos_nonneg)
  then have ne: "sqrt (P\<^sup>2 + s2) \<noteq> 0" by simp
  have sq: "(sqrt (P\<^sup>2 + s2))\<^sup>2 = P\<^sup>2 + s2" using pos by simp
  have np: "new_phi (sqrt (P\<^sup>2 + s2)) w = 1 / sqrt X"
    using ne by (simp only: new_phi_def sq X_def if_False)
  have "0 < 1 / P\<^sup>2" using P2 by simp
  with assms(3) have Xl: "1 / P\<^sup>2 < X" and Xp: "0 < X" unfolding X_def by linarith+
  have "sqrt (1 / P\<^sup>2) < sqrt X" using Xl by simp
  then have "1 / P < sqrt X" using assms(1) by (simp add: real_sqrt_divide)
  moreover have sp: "0 < sqrt X" using Xp by simp
  ultimately have "1 / sqrt X < P"
    using assms(1) by (simp add: field_simps)
  moreover have "0 < 1 / sqrt X" using sp by simp
  ultimately show ?thesis by (simp add: np)
qed


lemma clamp_above:
  assumes "0 < x"
  shows "1500 < max 0 (min (x * SCALING_FACTOR + DEFAULT_MU) 5000)"
proof -
  have "0 < x * SCALING_FACTOR" using assms by (simp add: SCALING_FACTOR_def)
  then show ?thesis by (simp add: DEFAULT_MU_def)
qed

lemma clamp_below:
  assumes "x < 0"
  shows "max 0 (min (x * SCALING_FACTOR + DEFAULT_MU) 5000) < 1500"
proof -
  have "x * SCALING_FACTOR < 0" using assms by (simp add: SCALING_FACTOR_def)
  then show ?thesis by (simp add: DEFAULT_MU_def)
qed

lemma rate_side_even:
  assumes "phi g = 2500000 / 1737178" and "sigma g = 6 / 100" and "mu g = 0"
    and "act = 0 \<or> act = 1"
  shows "(act = 1 \<longrightarrow> 1500 < mu (rate_side 1 g g act)) \<and>
         (act = 0 \<longrightarrow> mu (rate_side 1 g g act) < 1500) \<and>
         phi (rate_side 1 g g act) < 250"
proof -
  define P :: real where "P = 2500000 / 1737178"
  define I where "I = reduceImpact g"
  define d where "d = 1 * I * (act - 1 / 2)"
  define cv where "cv = min (1 / (I\<^sup>2 * (1 / 2) * (1 - 1 / 2))) (10 ^ 6)"
  define w where "w = 1 * I\<^sup>2 * (1 / 2) * (1 - 1 / 2)"
  define s where "s = determineSigma g d cv"
  define L where "L = 1 / (1 + 3 * P\<^sup>2 / 4)"
  define np where "np = new_phi (sqrt (P\<^sup>2 + s\<^sup>2)) w"
  have Ipos: "0 < I" and I1: "I\<^sup>2 \<le> 1" and Ilow: "1 / (1 + 3 * P\<^sup>2 / 4) \<le> I\<^sup>2"
    using reduceImpact_bounds [of g] by (simp_all add: I_def P_def assms(1))
  have rs: "rate_side 1 g g act = scaleUp \<lparr>mu = 0 + np\<^sup>2 * d, phi = np, sigma = s\<rparr>"
    by (simp add: rate_side_def Let_def expectScore_self assms(1,3) I_def d_def cv_def w_def
        s_def np_def P_def)
  have d2: "d\<^sup>2 = I\<^sup>2 / 4"
    using assms(4) by (auto simp: d_def power_mult_distrib power_divide)
  have cv0: "0 \<le> cv"
    using Ipos by (simp add: cv_def)
  have "d\<^sup>2 \<le> 1 / 4" using I1 by (simp add: d2)
  moreover have "1 / 4 \<le> P\<^sup>2" by (simp add: P_def power2_eq_square)
  ultimately have "d\<^sup>2 \<le> (phi g)\<^sup>2 + cv"
    using cv0 by (simp add: assms(1) P_def)
  then have sb: "0 < s \<and> s \<le> 6 / 100"
    using determineSigma_bounds [of g d cv] by (simp add: s_def assms(2))
  then have "s\<^sup>2 \<le> (6 / 100)\<^sup>2"
    by (intro power_mono) simp_all
  then have s2: "s\<^sup>2 \<le> 36 / 10000" by (simp add: power2_eq_square)
  have Ppos: "0 < P" by (simp add: P_def)
  have "1 / (P\<^sup>2 + 36 / 10000) \<le> 1 / (P\<^sup>2 + s\<^sup>2)"
    using s2 Ppos by (intro divide_left_mono mult_pos_pos add_pos_nonneg) simp_all
  moreover have "L / 4 \<le> w"
    using Ilow by (simp add: w_def L_def [symmetric])
  moreover have "1 / P\<^sup>2 < 1 / (P\<^sup>2 + 36 / 10000) + L / 4"
    by (simp add: L_def P_def power2_eq_square)
  ultimately have "1 / P\<^sup>2 < 1 / (P\<^sup>2 + s\<^sup>2) + w" by linarith
  then have npb: "0 < np \<and> np < P"
    unfolding np_def using Ppos by (intro new_phi_bounds) simp_all
  then have np2: "0 < np\<^sup>2" by simp
  have up: "act = 1 \<longrightarrow> 0 < np\<^sup>2 * d"
    using np2 Ipos by (simp add: d_def)
  have dn: "act = 0 \<longrightarrow> np\<^sup>2 * d < 0"
    using np2 Ipos by (simp add: d_def mult_less_0_iff)
  have "np * SCALING_FACTOR < P * SCALING_FACTOR"
    using npb by (simp add: SCALING_FACTOR_def)
  then have ph: "np * SCALING_FACTOR < 250" by (simp add: P_def SCALING_FACTOR_def)
  have m1: "act = 1 \<longrightarrow> 1500 < max 0 (min (np\<^sup>2 * d * SCALING_FACTOR + DEFAULT_MU) 5000)"
    using up clamp_above [of "np\<^sup>2 * d"] by blast
  have m0: "act = 0 \<longrightarrow> max 0 (min (np\<^sup>2 * d * SCALING_FACTOR + DEFAULT_MU) 5000) < 1500"
    using dn clamp_below [of "np\<^sup>2 * d"] by blast
  show ?thesis
    unfolding rs using m1 m0 ph by (simp add: scaleUp_def Let_def)
qed

text \<open>
  C7. Both competitors at the default rating \<open>{1500, 250, 0.06}\<close>, a completed contest with
  the scores 6 and 0: the player's new rating is above 1500, the opponent's below 1500,
  and both new deviations are below 250.
\<close>

theorem default_rating_six_love:
  "1500 < mu (player_new (calculateGlickoTRUpdate createDefaultRating createDefaultRating 6 0 ''completed'')) \<and>
   mu (opponent_new (calculateGlickoTRUpdate createDefaultRating createDefaultRating 6 0 ''completed'')) < 1500 \<and>
   phi (player_new (calculateGlickoTRUpdate createDefaultRating createDefaultRating 6 0 ''completed'')) < 250 \<and>
   phi (opponent_new (calculateGlickoTRUpdate createDefaultRating createDefaultRating 6 0 ''completed'')) < 250"
proof -
  define g where "g = scaleDown createDefaultRating"
  have g: "phi g = 2500000 / 1737178" "sigma g = 6 / 100" "mu g = 0"
    by (simp_all add: g_def scaleDown_def createDefaultRating_def Let_def DEFAULT_MU_def
        DEFAULT_PHI_def DEFAULT_SIGMA_def SCALING_FACTOR_def)
  have u: "calculateGlickoTRUpdate createDefaultRating createDefaultRating 6 0 ''completed'' =
      \<lparr>player_new = rate_side 1 g g 1, opponent_new = rate_side 1 g g 0\<rparr>"
    by (simp add: update_sides calculateMatchWeight_def g_def)
  show ?thesis
    unfolding u using rate_side_even [OF g, of 1] rate_side_even [OF g, of 0] by simp
qed

section \<open>Properties on doubles\<close>

subsection \<open>Rounding to the nearest double\<close>

lemma round_even_error: "\<bar>of_int (round_even y) - y\<bar> \<le> 1 / 2"
proof -
  have "of_int \<lfloor>y\<rfloor> \<le> y" "y < of_int \<lfloor>y\<rfloor> + 1" by linarith+
  then show ?thesis
    by (auto simp: round_even_def Let_def)
qed

lemma round_even_unique:
  assumes "\<bar>y - of_int n\<bar> < 1 / 2"
  shows "round_even y = n"
proof -
  have fl: "of_int \<lfloor>y\<rfloor> \<le> y" "y < of_int \<lfloor>y\<rfloor> + 1" by linarith+
  from assms have "\<lfloor>y\<rfloor> = n \<or> \<lfloor>y\<rfloor> = n - 1" by linarith
  then show ?thesis
  proof
    assume e: "\<lfloor>y\<rfloor> = n"
    with assms have "y - of_int n < 1 / 2" by linarith
    then show ?thesis by (simp add: round_even_def Let_def e)
  next
    assume e: "\<lfloor>y\<rfloor> = n - 1"
    with assms fl have "1 / 2 < y - of_int (n - 1)" by simp
    then show ?thesis by (simp add: round_even_def Let_def e)
  qed
qed

lemma round_even_of_int: "round_even (of_int n) = n"
  by (rule round_even_unique) simp

lemma floor_log2_iff:
  fixes x :: real
  assumes "0 < x"
  shows "\<lfloor>log 2 x\<rfloor> = k \<longleftrightarrow> 2 powi k \<le> x \<and> x < 2 powi (k + 1)"
proof -
  have a: "(2::real) powr (of_int k) = 2 powi k"
    using powr_real_of_int' [of "2::real" k] by simp
  have b: "(2::real) powr (of_int (k + 1)) = 2 powi (k + 1)"
    using powr_real_of_int' [of "2::real" "k + 1"] by simp
  have "\<lfloor>log 2 x\<rfloor> = k \<longleftrightarrow> 2 powr (of_int k) \<le> x \<and> x < 2 powr (of_int (k + 1))"
    by (rule floor_log_eq_powr_iff [OF assms]) simp
  then show ?thesis unfolding a b .
qed

lemma ulp_exponent_normal:
  assumes "2 powi k \<le> \<bar>x\<bar>" and "\<bar>x\<bar> < 2 powi (k + 1)" and "- 1022 \<le> k"
  shows "ulp_exponent x = k - 52"
proof -
  have pos: "0 < \<bar>x\<bar>" using assms(1) zero_less_power_int [of "2::real" k] by linarith
  have "\<lfloor>log 2 \<bar>x\<bar>\<rfloor> = k"
    using assms(1,2) pos by (simp add: floor_log2_iff)
  then show ?thesis using assms(3) by (simp add: ulp_exponent_def)
qed

lemma rnd_cert:
  assumes "2 powi k \<le> \<bar>x\<bar>" and "\<bar>x\<bar> < 2 powi (k + 1)" and "- 1022 \<le> k"
    and "\<bar>x - of_int m * 2 powi (k - 52)\<bar> < 2 powi (k - 52) / 2"
  shows "rnd x = of_int m * 2 powi (k - 52)"
proof -
  define u :: real where "u = 2 powi (k - 52)"
  have u: "0 < u" by (simp add: u_def)
  have e: "ulp_exponent x = k - 52" using assms(1-3) by (rule ulp_exponent_normal)
  have "\<bar>x / u - of_int m\<bar> = \<bar>x - of_int m * u\<bar> / u"
    using u by (simp add: field_simps)
  also have "\<dots> < (u / 2) / u"
    using assms(4) u by (intro divide_strict_right_mono) (simp_all add: u_def)
  finally have "\<bar>x / u - of_int m\<bar> < 1 / 2" using u by simp
  then have "round_even (x / u) = m" by (rule round_even_unique)
  then show ?thesis by (simp add: rnd_def e u_def)
qed

lemma rnd_error_normal:
  assumes "2 powi (- 1022) \<le> \<bar>x\<bar>"
  shows "\<bar>rnd x - x\<bar> \<le> \<bar>x\<bar> / 2 ^ 53"
proof -
  have pos: "0 < \<bar>x\<bar>" using assms zero_less_power_int [of "2::real" "- 1022"] by linarith
  define k where "k = \<lfloor>log 2 \<bar>x\<bar>\<rfloor>"
  have kb: "2 powi k \<le> \<bar>x\<bar> \<and> \<bar>x\<bar> < 2 powi (k + 1)"
    using floor_log2_iff [of "\<bar>x\<bar>" k] pos
    by (simp add: k_def)
  have "(2::real) powi (- 1022) < 2 powi (k + 1)" using assms kb by linarith
  have k: "- 1022 \<le> k"
  proof (rule ccontr)
    assume "\<not> - 1022 \<le> k"
    then have "k + 1 \<le> - 1022" by simp
    then have "(2::real) powi (k + 1) \<le> 2 powi (- 1022)"
      by (intro power_int_increasing) simp_all
    with \<open>(2::real) powi (- 1022) < 2 powi (k + 1)\<close> show False by linarith
  qed
  define u :: real where "u = 2 powi (k - 52)"
  have u: "0 < u" by (simp add: u_def)
  have e: "ulp_exponent x = k - 52" using kb k by (intro ulp_exponent_normal) simp_all
  have r: "rnd x = of_int (round_even (x / u)) * u" by (simp add: rnd_def e u_def)
  have "\<bar>rnd x - x\<bar> = \<bar>of_int (round_even (x / u)) - x / u\<bar> * u"
    unfolding r using u by (simp add: field_simps abs_mult flip: abs_mult_pos)
  also have "\<dots> \<le> (1 / 2) * u"
    using round_even_error [of "x / u"] u by (intro mult_right_mono) simp_all
  also have "u = 2 powi k / 2 ^ 52"
    by (simp add: u_def power_int_diff)
  also have "(1 / 2) * ((2::real) powi k / 2 ^ 52) = 2 powi k / 2 ^ 53" by simp
  also have "\<dots> \<le> \<bar>x\<bar> / 2 ^ 53"
    using kb by (intro divide_right_mono) simp_all
  finally show ?thesis .
qed


lemma rnd_zero: "rnd 0 = 0"
  by (simp add: rnd_def round_even_def)



lemma representable_le_MAX:
  assumes "\<bar>m\<bar> \<le> 2 ^ 53" and "k \<le> 1022"
  shows "\<bar>of_int m * 2 powi (k - 52)\<bar> \<le> MAX_VALUE"
proof -
  have "\<bar>of_int m :: real\<bar> \<le> 2 ^ 53"
    using assms(1) by (metis of_int_abs of_int_le_iff of_int_numeral of_int_power)
  then have "\<bar>of_int m * (2::real) powi (k - 52)\<bar> \<le> 2 ^ 53 * 2 powi (k - 52)"
    by (simp add: abs_mult)
  also have "(2::real) powi (k - 52) \<le> 2 powi (1022 - 52)"
    using assms(2) by (intro power_int_increasing) simp_all
  also have "(2::real) ^ 53 * 2 powi (1022 - 52) \<le> MAX_VALUE"
    by (simp add: MAX_VALUE_def)
  finally show ?thesis by simp
qed

lemma fl_cert:
  assumes "2 powi k \<le> \<bar>x\<bar>" and "\<bar>x\<bar> < 2 powi (k + 1)" and "- 1022 \<le> k"
    and "\<bar>x - of_int m * 2 powi (k - 52)\<bar> < 2 powi (k - 52) / 2"
    and "\<bar>m\<bar> \<le> 2 ^ 53" and "k \<le> 1022"
  shows "fl x = Fin (of_int m * 2 powi (k - 52))"
proof -
  have "rnd x = of_int m * 2 powi (k - 52)" using assms(1-4) by (rule rnd_cert)
  with representable_le_MAX [OF assms(5,6)] show ?thesis by (auto simp: fl_def)
qed




lemma fl_zero: "fl 0 = Fin 0"
  by (simp add: fl_def rnd_zero MAX_VALUE_def)

lemma fl_overflow:
  assumes "2 ^ 1025 \<le> x"
  shows "fl x = PInf"
proof -
  have "(2::real) powi (- 1022) \<le> 1" by (simp add: power_int_minus field_simps)
  also have "\<dots> \<le> 2 ^ 1025" by simp
  finally have "2 powi (- 1022) \<le> \<bar>x\<bar>" using assms by linarith
  then have "\<bar>rnd x - x\<bar> \<le> \<bar>x\<bar> / 2 ^ 53" by (rule rnd_error_normal)
  moreover have "\<bar>x\<bar> / 2 ^ 53 \<le> \<bar>x\<bar> / 2" by (intro divide_left_mono) simp_all
  moreover have x0: "0 \<le> x" using assms by (rule order_trans [rotated]) simp
  ultimately have "x / 2 \<le> rnd x" by linarith
  moreover have "MAX_VALUE < 2 ^ 1025 / 2" by (simp add: MAX_VALUE_def)
  moreover have "(2::real) ^ 1025 / 2 \<le> x / 2" using assms by simp
  ultimately have "MAX_VALUE < rnd x" by linarith
  then show ?thesis by (simp add: fl_def)
qed

lemma js_add_NaN [simp]: "js_add x NaN = NaN"
  by (cases x) simp_all

lemma js_lt_NaN [simp]: "js_lt x NaN = False"
  by (cases x) simp_all

lemma js_le_NaN [simp]: "js_le x NaN = False"
  by (cases x) simp_all

lemma js_add_commute: "js_add x y = js_add y x"
  by (cases x; cases y) (simp_all add: add.commute)

lemma js_sub_NaN [simp]: "js_sub x NaN = NaN" "js_sub NaN y = NaN"
  by (simp_all add: js_sub_def)

lemma js_sub_PInf_PInf: "js_sub PInf PInf = NaN"
  by (simp add: js_sub_def)

lemma js_sub_PInf_Fin: "js_sub PInf (Fin y) = PInf"
  by (simp add: js_sub_def)

lemma fJ_PInf: "fJ p v d2 PInf PInf = NaN"
  by (simp add: fJ_def Let_def js_sub_PInf_PInf)

lemma half: "fl (1 / 2) = Fin (1 / 2)"
  using fl_cert [of "- 1" "1 / 2" "2 ^ 52"] by simp

lemma determineSigmaJ_overflow:
  assumes "js_pow2 (sigmaJ r) = PInf"
    and "\<not> js_gt (js_pow2 d) (js_add (js_pow2 (phiJ r)) v)"
  shows "determineSigmaJ r d v = PInf"
proof -
  define g where "g = fJ (phiJ r) v (js_pow2 d) PInf"
  have gI: "g PInf = NaN" by (simp add: g_def fJ_PInf)
  have t: "js_mul (Fin 1) TAUJ = Fin (1 / 2)"
    by (simp add: TAUJ_def half)
  have k: "find_kJ g PInf (Suc 0) = Suc 0"
    by (subst find_kJ.simps) (simp add: t js_sub_PInf_Fin gI js_ge_def)
  have b: "js_sub PInf (js_mul (Fin (real (find_kJ g PInf (Suc 0)))) TAUJ) = PInf"
    by (simp add: k t js_sub_PInf_Fin)
  have loop: "refineJ g (sigmaJ r) v PInf PInf NaN NaN 0 = PInf"
    by (subst refineJ.simps) (simp add: js_sub_PInf_PInf js_gt_def inf_of_sign_def)
  show ?thesis
    unfolding determineSigmaJ_def Let_def
    using assms(2) by (simp add: assms(1) g_def [symmetric] b gI loop)
qed


lemma round_even_tie: "round_even (of_int n + 1 / 2) = (if even n then n else n + 1)"
proof -
  have "\<lfloor>of_int n + (1::real) / 2\<rfloor> = n" by linarith
  then show ?thesis by (simp add: round_even_def Let_def)
qed

lemma fl_cert_tie:
  assumes "2 powi k \<le> \<bar>x\<bar>" and "\<bar>x\<bar> < 2 powi (k + 1)" and "- 1022 \<le> k"
    and "x = (of_int n + 1 / 2) * 2 powi (k - 52)"
    and "\<bar>if even n then n else n + 1\<bar> \<le> 2 ^ 53" and "k \<le> 1022"
  shows "fl x = Fin (of_int (if even n then n else n + 1) * 2 powi (k - 52))"
proof -
  have e: "ulp_exponent x = k - 52" using assms(1-3) by (rule ulp_exponent_normal)
  have "x / 2 powi (k - 52) = of_int n + 1 / 2"
    unfolding assms(4) by simp
  then have "rnd x = of_int (if even n then n else n + 1) * 2 powi (k - 52)"
    by (simp only: rnd_def e round_even_tie)
  with representable_le_MAX [OF assms(5,6)] show ?thesis by (auto simp: fl_def)
qed

lemma fl_sqrt_cert:
  assumes "(2 powi k)\<^sup>2 \<le> x" and "x < (2 powi (k + 1))\<^sup>2" and "- 1022 \<le> k"
    and "(0::real) \<le> of_int m * 2 powi (k - 52) - 2 powi (k - 52) / 2"
    and "(of_int m * 2 powi (k - 52) - 2 powi (k - 52) / 2)\<^sup>2 < x"
    and "x < (of_int m * 2 powi (k - 52) + 2 powi (k - 52) / 2)\<^sup>2"
    and "\<bar>m\<bar> \<le> 2 ^ 53" and "k \<le> 1022"
  shows "js_sqrt (Fin x) = Fin (of_int m * 2 powi (k - 52))"
proof -
  define u :: real where "u = 2 powi (k - 52)"
  define y where "y = of_int m * u"
  have u: "0 < u" by (simp add: u_def)
  have x0: "0 \<le> x" using assms(1) by (rule order_trans [rotated]) simp
  have k0: "(0::real) \<le> 2 powi k" "(0::real) \<le> 2 powi (k + 1)" by simp_all
  have a: "2 powi k \<le> sqrt x" using assms(1) by (rule real_le_rsqrt)
  have b: "sqrt x < 2 powi (k + 1)" using k0(2) assms(2) by (rule real_less_lsqrt)
  have lo: "y - u / 2 < sqrt x"
    using assms(5) unfolding y_def u_def by (rule real_less_rsqrt)
  have "0 \<le> y + u / 2" using assms(4) u unfolding y_def u_def by linarith
  then have hi: "sqrt x < y + u / 2"
    using assms(6) unfolding y_def u_def by (rule real_less_lsqrt)
  have s0: "0 \<le> sqrt x" using x0 by simp
  have "fl (sqrt x) = Fin (of_int m * 2 powi (k - 52))"
  proof (rule fl_cert)
    show "2 powi k \<le> \<bar>sqrt x\<bar>" using a s0 by simp
    show "\<bar>sqrt x\<bar> < 2 powi (k + 1)" using b s0 by simp
    show "- 1022 \<le> k" by (rule assms(3))
    show "\<bar>sqrt x - of_int m * 2 powi (k - 52)\<bar> < 2 powi (k - 52) / 2"
      using lo hi unfolding y_def u_def by linarith
    show "\<bar>m\<bar> \<le> 2 ^ 53" by (rule assms(7))
    show "k \<le> 1022" by (rule assms(8))
  qed
  then show ?thesis using x0 by simp
qed


subsection \<open>Finiteness\<close>

text \<open>
  C1, at an input where the code fails it. The claim is that the update returns finite
  ratings, deviations and volatilities for every rating with deviation at least 0 and
  volatility above 0, and that \<open>determineSigma\<close> never returns \<open>Infinity\<close>. For the player
  \<open>{1500, 250, 1e200}\<close> against the default rating, scores 6 and 0, completed:
  \<open>sigma ** 2\<close> overflows, \<open>alpha\<close> and \<open>b\<close> are \<open>Infinity\<close>, \<open>Math.abs(b - a)\<close> is \<open>NaN\<close>, the loop
  with its \<open>isFinite\<close> guards is skipped, and \<open>Math.exp(Infinity)\<close> is returned as the
  player's new volatility.
\<close>

theorem overflow_volatility_infinite:
  "sigmaJ (player_newJ (calculateGlickoTRUpdateJ
      \<lparr>muJ = Fin 1500, phiJ = Fin 250, sigmaJ = fl (10 ^ 200)\<rparr> createDefaultRatingJ
      (Fin 6) (Fin 0) ''completed'')) = PInf \<and>
   \<not> js_isFinite PInf"
proof -
  have s1: "fl (1737178 / 10000) = Fin (1528037928413325 / 2 ^ 43)"
    using fl_cert [of "7" "1737178 / 10000" "6112151713653300"]
    by (simp add: js_sub_def js_pow2_def)
  have s2: "fl (10 ^ 200) = Fin (2941796710330669 * 2 ^ 613)"
    using fl_cert [of "664" "10 ^ 200" "5883593420661338"]
    by (simp add: js_sub_def js_pow2_def)
  have s3: "fl (6 / 100) = Fin (1080863910568919 / 2 ^ 54)"
    using fl_cert [of "- 5" "6 / 100" "8646911284551352"]
    by (simp add: js_sub_def js_pow2_def)
  have s4: "fl (1 / 10) = Fin (3602879701896397 / 2 ^ 55)"
    using fl_cert [of "- 4" "1 / 10" "7205759403792794"]
    by (simp add: js_sub_def js_pow2_def)
  have s5: "js_sub (Fin 1500) (Fin 1500) = Fin 0"
    by (simp add: fl_zero js_sub_def js_pow2_def)
  have s6: "js_div (Fin 0) (Fin (1528037928413325 / 2 ^ 43)) = Fin 0"
    by (simp add: fl_zero js_sub_def js_pow2_def)
  have s7: "js_div (Fin 250) (Fin (1528037928413325 / 2 ^ 43)) = Fin (3240600292090459 / 2 ^ 51)"
    using fl_cert [of "0" "(250) / (1528037928413325 / 2 ^ 43)" "6481200584180918"]
    by (simp add: js_sub_def js_pow2_def)
  have s8: "js_pow2 (Fin (3240600292090459 / 2 ^ 51)) = Fin (2331799254372939 / 2 ^ 50)"
    using fl_cert [of "1" "(3240600292090459 / 2 ^ 51) * (3240600292090459 / 2 ^ 51)" "4663598508745878"]
    by (simp add: js_sub_def js_pow2_def)
  have s9: "js_mul (Fin 3) (Fin (2331799254372939 / 2 ^ 50)) = Fin (6995397763118817 / 2 ^ 50)"
    using fl_cert [of "2" "(3) * (2331799254372939 / 2 ^ 50)" "6995397763118817"]
    by (simp add: js_sub_def js_pow2_def)
  have s10: "js_pow2 (Fin (884279719003555 / 2 ^ 48)) = Fin (2778046668940015 / 2 ^ 48)"
    using fl_cert [of "3" "(884279719003555 / 2 ^ 48) * (884279719003555 / 2 ^ 48)" "5556093337880030"]
    by (simp add: js_sub_def js_pow2_def)
  have s11: "js_div (Fin (6995397763118817 / 2 ^ 50)) (Fin (2778046668940015 / 2 ^ 48)) = Fin (5670255851265285 / 2 ^ 53)"
    using fl_cert [of "- 1" "(6995397763118817 / 2 ^ 50) / (2778046668940015 / 2 ^ 48)" "5670255851265285"]
    by (simp add: js_sub_def js_pow2_def)
  have s12: "js_add (Fin 1) (Fin (5670255851265285 / 2 ^ 53)) = Fin (3669363776501569 / 2 ^ 51)"
    using fl_cert_tie [of "0" "(1) + (5670255851265285 / 2 ^ 53)" "7338727553003138"]
    by (simp add: js_sub_def js_pow2_def)
  have s13: "js_sqrt (Fin (3669363776501569 / 2 ^ 51)) = Fin (5748973010293101 / 2 ^ 52)"
    using fl_sqrt_cert [of "0" "3669363776501569 / 2 ^ 51" "5748973010293101"]
    by (simp add: power2_eq_square)
  have s14: "js_div (Fin 1) (Fin (5748973010293101 / 2 ^ 52)) = Fin (882001427356571 / 2 ^ 50)"
    using fl_cert [of "- 1" "(1) / (5748973010293101 / 2 ^ 52)" "7056011418852568"]
    by (simp add: js_sub_def js_pow2_def)
  have s15: "js_neg (Fin (882001427356571 / 2 ^ 50)) = Fin (- 882001427356571 / 2 ^ 50)"
    by simp
  have s16: "js_sub (Fin 0) (Fin 0) = Fin 0"
    by (simp add: fl_zero js_sub_def js_pow2_def)
  have s17: "js_mul (Fin (- 882001427356571 / 2 ^ 50)) (Fin 0) = Fin 0"
    by (simp add: fl_zero js_sub_def js_pow2_def)
  have s18: "js_exp (Fin 0) = Fin 1"
    using fl_cert [of "0" "1" "4503599627370496"]
    by (simp add: js_sub_def js_pow2_def)
  have s19: "js_add (Fin 1) (Fin 1) = Fin 2"
    using fl_cert [of "1" "(1) + (1)" "4503599627370496"]
    by (simp add: js_sub_def js_pow2_def)
  have s20: "js_div (Fin 1) (Fin 2) = Fin (1 / 2)"
    using fl_cert [of "- 1" "(1) / (2)" "4503599627370496"]
    by (simp add: js_sub_def js_pow2_def)
  have s21: "js_sub (Fin 1) (Fin (3602879701896397 / 2 ^ 55)) = Fin (8106479329266893 / 2 ^ 53)"
    using fl_cert [of "- 1" "(1) - (3602879701896397 / 2 ^ 55)" "8106479329266893"]
    by (simp add: js_sub_def js_pow2_def)
  have s22: "js_min (Fin (1 / 2)) (Fin (8106479329266893 / 2 ^ 53)) = Fin (1 / 2)"
    by (simp add: js_min_def)
  have s23: "js_max (Fin (3602879701896397 / 2 ^ 55)) (Fin (1 / 2)) = Fin (1 / 2)"
    by (simp add: js_max_def)
  have s24: "js_le (Fin 1) (Fin 0) = False"
    by (simp add: js_gt_def js_ge_def)
  have s25: "js_add (Fin 6) (Fin 0) = Fin 6"
    using fl_cert [of "2" "(6) + (0)" "6755399441055744"]
    by (simp add: js_sub_def js_pow2_def)
  have s26: "js_le (Fin 6) (Fin 0) = False"
    by (simp add: js_gt_def js_ge_def)
  have s27: "js_div (Fin 6) (Fin 6) = Fin 1"
    using fl_cert [of "0" "(6) / (6)" "4503599627370496"]
    by (simp add: js_sub_def js_pow2_def)
  have s28: "js_pow2 (Fin (882001427356571 / 2 ^ 50)) = Fin (2763750181099413 / 2 ^ 52)"
    using fl_cert [of "- 1" "(882001427356571 / 2 ^ 50) * (882001427356571 / 2 ^ 50)" "5527500362198826"]
    by (simp add: js_sub_def js_pow2_def)
  have s29: "js_mul (Fin (2763750181099413 / 2 ^ 52)) (Fin (1 / 2)) = Fin (2763750181099413 / 2 ^ 53)"
    using fl_cert [of "- 2" "(2763750181099413 / 2 ^ 52) * (1 / 2)" "5527500362198826"]
    by (simp add: js_sub_def js_pow2_def)
  have s30: "js_sub (Fin 1) (Fin (1 / 2)) = Fin (1 / 2)"
    using fl_cert [of "- 1" "(1) - (1 / 2)" "4503599627370496"]
    by (simp add: js_sub_def js_pow2_def)
  have s31: "js_mul (Fin (2763750181099413 / 2 ^ 53)) (Fin (1 / 2)) = Fin (2763750181099413 / 2 ^ 54)"
    using fl_cert [of "- 3" "(2763750181099413 / 2 ^ 53) * (1 / 2)" "5527500362198826"]
    by (simp add: js_sub_def js_pow2_def)
  have s32: "js_div (Fin 1) (Fin (2763750181099413 / 2 ^ 54)) = Fin (57333809007837 / 2 ^ 43)"
    using fl_cert [of "2" "(1) / (2763750181099413 / 2 ^ 54)" "7338727553003136"]
    by (simp add: js_sub_def js_pow2_def)
  have s33: "js_min (Fin (57333809007837 / 2 ^ 43)) (Fin 1000000) = Fin (57333809007837 / 2 ^ 43)"
    by (simp add: js_min_def)
  have s34: "js_mul (Fin 1) (Fin (882001427356571 / 2 ^ 50)) = Fin (882001427356571 / 2 ^ 50)"
    using fl_cert [of "- 1" "(1) * (882001427356571 / 2 ^ 50)" "7056011418852568"]
    by (simp add: js_sub_def js_pow2_def)
  have s35: "js_mul (Fin (882001427356571 / 2 ^ 50)) (Fin (1 / 2)) = Fin (882001427356571 / 2 ^ 51)"
    using fl_cert [of "- 2" "(882001427356571 / 2 ^ 50) * (1 / 2)" "7056011418852568"]
    by (simp add: js_sub_def js_pow2_def)
  have s36: "js_pow2 (Fin (882001427356571 / 2 ^ 51)) = Fin (2763750181099413 / 2 ^ 54)"
    using fl_cert [of "- 3" "(882001427356571 / 2 ^ 51) * (882001427356571 / 2 ^ 51)" "5527500362198826"]
    by (simp add: js_sub_def js_pow2_def)
  have s37: "js_add (Fin (2331799254372939 / 2 ^ 50)) (Fin (57333809007837 / 2 ^ 43)) = Fin (2417631701844019 / 2 ^ 48)"
    using fl_cert_tie [of "3" "(2331799254372939 / 2 ^ 50) + (57333809007837 / 2 ^ 43)" "4835263403688037"]
    by (simp add: js_sub_def js_pow2_def)
  have s38: "js_gt (Fin (2763750181099413 / 2 ^ 54)) (Fin (2417631701844019 / 2 ^ 48)) = False"
    by (simp add: js_gt_def js_ge_def)
  note steps = s1 s2 s3 s4 s5 s6 s7 s8 s9 s10 s11 s12 s13 s14 s15 s16 s17 s18 s19 s20 s21 s22 s23 s24 s25 s26 s27 s28 s29 s30 s31 s32 s33 s34 s35 s36 s37 s38
  define P where "P = \<lparr>muJ = Fin 0, phiJ = Fin (3240600292090459 / 2 ^ 51), sigmaJ = Fin (2941796710330669 * 2 ^ 613)\<rparr>"
  define Q where "Q = \<lparr>muJ = Fin 0, phiJ = Fin (3240600292090459 / 2 ^ 51), sigmaJ = Fin (1080863910568919 / 2 ^ 54)\<rparr>"
  have sdP: "scaleDownJ \<lparr>muJ = Fin 1500, phiJ = Fin 250, sigmaJ = fl (10 ^ 200)\<rparr> = P"
    unfolding scaleDownJ_def Let_def P_def
    by (simp only: PlayerRatingJ.simps DEFAULT_MUJ_def SCALING_FACTORJ_def steps)
  have sdQ: "scaleDownJ createDefaultRatingJ = Q"
    unfolding scaleDownJ_def Let_def Q_def createDefaultRatingJ_def
    by (simp only: PlayerRatingJ.simps DEFAULT_MUJ_def DEFAULT_PHIJ_def DEFAULT_SIGMAJ_def
        SCALING_FACTORJ_def steps)
  have I: "reduceImpactJ Q = Fin (882001427356571 / 2 ^ 50)"
    unfolding reduceImpactJ_def Q_def MATH_PI_def
    by (simp only: PlayerRatingJ.simps steps)
  have E: "expectScoreJ P Q (Fin (882001427356571 / 2 ^ 50)) = Fin (1 / 2)"
    unfolding expectScoreJ_def Let_def P_def Q_def CLAMP_EPSILONJ_def
    by (simp only: PlayerRatingJ.simps steps)
  have w: "calculateMatchWeightJ ''completed'' (Fin 6) (Fin 0) = Fin 1"
    by (simp add: calculateMatchWeightJ_def)
  have ov: "js_pow2 (sigmaJ P) = PInf"
  proof -
    have "(2::real) ^ 1025 \<le> (2941796710330669 * 2 ^ 613) * (2941796710330669 * 2 ^ 613)" by simp
    then show ?thesis
      unfolding P_def js_pow2_def by (simp only: PlayerRatingJ.simps js_mul.simps fl_overflow)
  qed
  have nb: "\<not> js_gt (js_pow2 (Fin (882001427356571 / 2 ^ 51))) (js_add (js_pow2 (phiJ P)) (Fin (57333809007837 / 2 ^ 43)))"
    unfolding P_def by (simp only: PlayerRatingJ.simps steps) simp
  have ds: "determineSigmaJ P (Fin (882001427356571 / 2 ^ 51)) (Fin (57333809007837 / 2 ^ 43)) = PInf"
    using ov nb by (rule determineSigmaJ_overflow)
  have "sigmaJ (player_newJ (calculateGlickoTRUpdateJ
      \<lparr>muJ = Fin 1500, phiJ = Fin 250, sigmaJ = fl (10 ^ 200)\<rparr> createDefaultRatingJ
      (Fin 6) (Fin 0) ''completed'')) = determineSigmaJ P (Fin (882001427356571 / 2 ^ 51)) (Fin (57333809007837 / 2 ^ 43))"
    unfolding calculateGlickoTRUpdateJ_def Let_def w sdP sdQ I E scaleUpJ_def
    by (simp only: steps if_False GlickoTRUpdateJ.simps PlayerRatingJ.simps)
  with ds show ?thesis by simp
qed

subsection \<open>Symmetry\<close>

lemma update_sidesJ:
  "calculateGlickoTRUpdateJ p q pg og st =
     (let w = calculateMatchWeightJ st pg og;
          act = actualScorePlayerJ pg og
      in if js_le w (Fin 0) then \<lparr>player_newJ = p, opponent_newJ = q\<rparr>
         else \<lparr>player_newJ = rate_sideJ w (scaleDownJ p) (scaleDownJ q) act,
               opponent_newJ = rate_sideJ w (scaleDownJ q) (scaleDownJ p) (js_sub (Fin 1) act)\<rparr>)"
  by (simp add: calculateGlickoTRUpdateJ_def rate_sideJ_def actualScorePlayerJ_def Let_def)

lemma weightJ_commute: "calculateMatchWeightJ st og pg = calculateMatchWeightJ st pg og"
  by (simp add: calculateMatchWeightJ_def js_add_commute [of og pg])


text \<open>
  C6, as the code has it. The claim is that swapping the competitors and their scores
  swaps the two outputs exactly. The opponent's score share is computed as
  \<open>1.0 - playerGames / totalGames\<close>, which is not always the double
  \<open>opponentGames / totalGames\<close>: \<open>1 - 7/12\<close> and \<open>5/12\<close> differ in the last bit. For two
  competitors rated \<open>{1500, 250, 1e200}\<close> and the scores 7 and 5 the swapped call gives its
  player the rating 1426.0814292092093 and the original call gives its opponent
  1426.081429209209. (The volatility is chosen so large that the solver returns at once:
  every operation on the way is then a basic operation of IEEE arithmetic.)
\<close>

theorem update_asymmetric_counterexample:
  "muJ (player_newJ (calculateGlickoTRUpdateJ
      \<lparr>muJ = Fin 1500, phiJ = Fin 250, sigmaJ = fl (10 ^ 200)\<rparr>
      \<lparr>muJ = Fin 1500, phiJ = Fin 250, sigmaJ = fl (10 ^ 200)\<rparr>
      (Fin 5) (Fin 7) ''completed'')) = Fin (6271972454283769 / 2 ^ 42) \<and>
   muJ (opponent_newJ (calculateGlickoTRUpdateJ
      \<lparr>muJ = Fin 1500, phiJ = Fin 250, sigmaJ = fl (10 ^ 200)\<rparr>
      \<lparr>muJ = Fin 1500, phiJ = Fin 250, sigmaJ = fl (10 ^ 200)\<rparr>
      (Fin 7) (Fin 5) ''completed'')) = Fin (783996556785471 / 2 ^ 39) \<and>
   calculateGlickoTRUpdateJ
      \<lparr>muJ = Fin 1500, phiJ = Fin 250, sigmaJ = fl (10 ^ 200)\<rparr>
      \<lparr>muJ = Fin 1500, phiJ = Fin 250, sigmaJ = fl (10 ^ 200)\<rparr>
      (Fin 5) (Fin 7) ''completed'' \<noteq>
   \<lparr>player_newJ = opponent_newJ (calculateGlickoTRUpdateJ
      \<lparr>muJ = Fin 1500, phiJ = Fin 250, sigmaJ = fl (10 ^ 200)\<rparr>
      \<lparr>muJ = Fin 1500, phiJ = Fin 250, sigmaJ = fl (10 ^ 200)\<rparr>
      (Fin 7) (Fin 5) ''completed''),
    opponent_newJ = player_newJ (calculateGlickoTRUpdateJ
      \<lparr>muJ = Fin 1500, phiJ = Fin 250, sigmaJ = fl (10 ^ 200)\<rparr>
      \<lparr>muJ = Fin 1500, phiJ = Fin 250, sigmaJ = fl (10 ^ 200)\<rparr>
      (Fin 7) (Fin 5) ''completed'')\<rparr>"
proof -
  have s1: "fl (1737178 / 10000) = Fin (1528037928413325 / 2 ^ 43)"
    using fl_cert [of "7" "1737178 / 10000" "6112151713653300"]
    by (simp add: js_sub_def js_pow2_def)
  have s2: "fl (10 ^ 200) = Fin (2941796710330669 * 2 ^ 613)"
    using fl_cert [of "664" "10 ^ 200" "5883593420661338"]
    by (simp add: js_sub_def js_pow2_def)
  have s3: "fl (1 / 10) = Fin (3602879701896397 / 2 ^ 55)"
    using fl_cert [of "- 4" "1 / 10" "7205759403792794"]
    by (simp add: js_sub_def js_pow2_def)
  have s4: "js_sub (Fin 1500) (Fin 1500) = Fin 0"
    by (simp add: fl_zero js_sub_def js_pow2_def)
  have s5: "js_div (Fin 0) (Fin (1528037928413325 / 2 ^ 43)) = Fin 0"
    by (simp add: fl_zero js_sub_def js_pow2_def)
  have s6: "js_div (Fin 250) (Fin (1528037928413325 / 2 ^ 43)) = Fin (3240600292090459 / 2 ^ 51)"
    using fl_cert [of "0" "(250) / (1528037928413325 / 2 ^ 43)" "6481200584180918"]
    by (simp add: js_sub_def js_pow2_def)
  have s7: "js_pow2 (Fin (3240600292090459 / 2 ^ 51)) = Fin (2331799254372939 / 2 ^ 50)"
    using fl_cert [of "1" "(3240600292090459 / 2 ^ 51) * (3240600292090459 / 2 ^ 51)" "4663598508745878"]
    by (simp add: js_sub_def js_pow2_def)
  have s8: "js_mul (Fin 3) (Fin (2331799254372939 / 2 ^ 50)) = Fin (6995397763118817 / 2 ^ 50)"
    using fl_cert [of "2" "(3) * (2331799254372939 / 2 ^ 50)" "6995397763118817"]
    by (simp add: js_sub_def js_pow2_def)
  have s9: "js_pow2 (Fin (884279719003555 / 2 ^ 48)) = Fin (2778046668940015 / 2 ^ 48)"
    using fl_cert [of "3" "(884279719003555 / 2 ^ 48) * (884279719003555 / 2 ^ 48)" "5556093337880030"]
    by (simp add: js_sub_def js_pow2_def)
  have s10: "js_div (Fin (6995397763118817 / 2 ^ 50)) (Fin (2778046668940015 / 2 ^ 48)) = Fin (5670255851265285 / 2 ^ 53)"
    using fl_cert [of "- 1" "(6995397763118817 / 2 ^ 50) / (2778046668940015 / 2 ^ 48)" "5670255851265285"]
    by (simp add: js_sub_def js_pow2_def)
  have s11: "js_add (Fin 1) (Fin (5670255851265285 / 2 ^ 53)) = Fin (3669363776501569 / 2 ^ 51)"
    using fl_cert_tie [of "0" "(1) + (5670255851265285 / 2 ^ 53)" "7338727553003138"]
    by (simp add: js_sub_def js_pow2_def)
  have s12: "js_sqrt (Fin (3669363776501569 / 2 ^ 51)) = Fin (5748973010293101 / 2 ^ 52)"
    using fl_sqrt_cert [of "0" "3669363776501569 / 2 ^ 51" "5748973010293101"]
    by (simp add: power2_eq_square)
  have s13: "js_div (Fin 1) (Fin (5748973010293101 / 2 ^ 52)) = Fin (882001427356571 / 2 ^ 50)"
    using fl_cert [of "- 1" "(1) / (5748973010293101 / 2 ^ 52)" "7056011418852568"]
    by (simp add: js_sub_def js_pow2_def)
  have s14: "js_neg (Fin (882001427356571 / 2 ^ 50)) = Fin (- 882001427356571 / 2 ^ 50)"
    by simp
  have s15: "js_sub (Fin 0) (Fin 0) = Fin 0"
    by (simp add: fl_zero js_sub_def js_pow2_def)
  have s16: "js_mul (Fin (- 882001427356571 / 2 ^ 50)) (Fin 0) = Fin 0"
    by (simp add: fl_zero js_sub_def js_pow2_def)
  have s17: "js_exp (Fin 0) = Fin 1"
    using fl_cert [of "0" "1" "4503599627370496"]
    by (simp add: js_sub_def js_pow2_def)
  have s18: "js_add (Fin 1) (Fin 1) = Fin 2"
    using fl_cert [of "1" "(1) + (1)" "4503599627370496"]
    by (simp add: js_sub_def js_pow2_def)
  have s19: "js_div (Fin 1) (Fin 2) = Fin (1 / 2)"
    using fl_cert [of "- 1" "(1) / (2)" "4503599627370496"]
    by (simp add: js_sub_def js_pow2_def)
  have s20: "js_sub (Fin 1) (Fin (3602879701896397 / 2 ^ 55)) = Fin (8106479329266893 / 2 ^ 53)"
    using fl_cert [of "- 1" "(1) - (3602879701896397 / 2 ^ 55)" "8106479329266893"]
    by (simp add: js_sub_def js_pow2_def)
  have s21: "js_min (Fin (1 / 2)) (Fin (8106479329266893 / 2 ^ 53)) = Fin (1 / 2)"
    by (simp add: js_min_def)
  have s22: "js_max (Fin (3602879701896397 / 2 ^ 55)) (Fin (1 / 2)) = Fin (1 / 2)"
    by (simp add: js_max_def)
  have s23: "js_le (Fin 1) (Fin 0) = False"
    by (simp add: js_gt_def js_ge_def)
  have s24: "js_pow2 (Fin (882001427356571 / 2 ^ 50)) = Fin (2763750181099413 / 2 ^ 52)"
    using fl_cert [of "- 1" "(882001427356571 / 2 ^ 50) * (882001427356571 / 2 ^ 50)" "5527500362198826"]
    by (simp add: js_sub_def js_pow2_def)
  have s25: "js_mul (Fin (2763750181099413 / 2 ^ 52)) (Fin (1 / 2)) = Fin (2763750181099413 / 2 ^ 53)"
    using fl_cert [of "- 2" "(2763750181099413 / 2 ^ 52) * (1 / 2)" "5527500362198826"]
    by (simp add: js_sub_def js_pow2_def)
  have s26: "js_sub (Fin 1) (Fin (1 / 2)) = Fin (1 / 2)"
    using fl_cert [of "- 1" "(1) - (1 / 2)" "4503599627370496"]
    by (simp add: js_sub_def js_pow2_def)
  have s27: "js_mul (Fin (2763750181099413 / 2 ^ 53)) (Fin (1 / 2)) = Fin (2763750181099413 / 2 ^ 54)"
    using fl_cert [of "- 3" "(2763750181099413 / 2 ^ 53) * (1 / 2)" "5527500362198826"]
    by (simp add: js_sub_def js_pow2_def)
  have s28: "js_div (Fin 1) (Fin (2763750181099413 / 2 ^ 54)) = Fin (57333809007837 / 2 ^ 43)"
    using fl_cert [of "2" "(1) / (2763750181099413 / 2 ^ 54)" "7338727553003136"]
    by (simp add: js_sub_def js_pow2_def)
  have s29: "js_min (Fin (57333809007837 / 2 ^ 43)) (Fin 1000000) = Fin (57333809007837 / 2 ^ 43)"
    by (simp add: js_min_def)
  have s30: "js_mul (Fin 1) (Fin (882001427356571 / 2 ^ 50)) = Fin (882001427356571 / 2 ^ 50)"
    using fl_cert [of "- 1" "(1) * (882001427356571 / 2 ^ 50)" "7056011418852568"]
    by (simp add: js_sub_def js_pow2_def)
  have s31: "js_mul (Fin 1) (Fin (2763750181099413 / 2 ^ 52)) = Fin (2763750181099413 / 2 ^ 52)"
    using fl_cert [of "- 1" "(1) * (2763750181099413 / 2 ^ 52)" "5527500362198826"]
    by (simp add: js_sub_def js_pow2_def)
  have s32: "js_add (Fin 0) (Fin (2763750181099413 / 2 ^ 54)) = Fin (2763750181099413 / 2 ^ 54)"
    using fl_cert [of "- 3" "(0) + (2763750181099413 / 2 ^ 54)" "5527500362198826"]
    by (simp add: js_sub_def js_pow2_def)
  have s33: "js_sqrt (Fin (2763750181099413 / 2 ^ 54)) = Fin (882001427356571 / 2 ^ 51)"
    using fl_sqrt_cert [of "- 2" "2763750181099413 / 2 ^ 54" "7056011418852568"]
    by (simp add: power2_eq_square)
  have s34: "js_div (Fin 1) (Fin (882001427356571 / 2 ^ 51)) = Fin (5748973010293101 / 2 ^ 51)"
    using fl_cert [of "1" "(1) / (882001427356571 / 2 ^ 51)" "5748973010293101"]
    by (simp add: js_sub_def js_pow2_def)
  have s35: "js_pow2 (Fin (5748973010293101 / 2 ^ 51)) = Fin (7338727553003137 / 2 ^ 50)"
    using fl_cert [of "2" "(5748973010293101 / 2 ^ 51) * (5748973010293101 / 2 ^ 51)" "7338727553003137"]
    by (simp add: js_sub_def js_pow2_def)
  have s36: "js_add (Fin 7) (Fin 5) = Fin 12"
    using fl_cert [of "3" "(7) + (5)" "6755399441055744"]
    by (simp add: js_sub_def js_pow2_def)
  have s37: "js_le (Fin 12) (Fin 0) = False"
    by (simp add: js_gt_def js_ge_def)
  have s38: "js_div (Fin 7) (Fin 12) = Fin (5254199565265579 / 2 ^ 53)"
    using fl_cert [of "- 1" "(7) / (12)" "5254199565265579"]
    by (simp add: js_sub_def js_pow2_def)
  have s39: "js_sub (Fin 1) (Fin (5254199565265579 / 2 ^ 53)) = Fin (3752999689475413 / 2 ^ 53)"
    using fl_cert [of "- 2" "(1) - (5254199565265579 / 2 ^ 53)" "7505999378950826"]
    by (simp add: js_sub_def js_pow2_def)
  have s40: "js_add (Fin 5) (Fin 7) = Fin 12"
    using fl_cert [of "3" "(5) + (7)" "6755399441055744"]
    by (simp add: js_sub_def js_pow2_def)
  have s41: "js_div (Fin 5) (Fin 12) = Fin (7505999378950827 / 2 ^ 54)"
    using fl_cert [of "- 2" "(5) / (12)" "7505999378950827"]
    by (simp add: js_sub_def js_pow2_def)
  have s42: "js_sub (Fin (3752999689475413 / 2 ^ 53)) (Fin (1 / 2)) = Fin (- 750599937895083 / 2 ^ 53)"
    using fl_cert [of "- 4" "(3752999689475413 / 2 ^ 53) - (1 / 2)" "- 6004799503160664"]
    by (simp add: js_sub_def js_pow2_def)
  have s43: "js_mul (Fin (882001427356571 / 2 ^ 50)) (Fin (- 750599937895083 / 2 ^ 53)) = Fin (- 4704007612568381 / 2 ^ 56)"
    using fl_cert [of "- 4" "(882001427356571 / 2 ^ 50) * (- 750599937895083 / 2 ^ 53)" "- 4704007612568381"]
    by (simp add: js_sub_def js_pow2_def)
  have s44: "js_pow2 (Fin (- 4704007612568381 / 2 ^ 56)) = Fin (2456666827643925 / 2 ^ 59)"
    using fl_cert [of "- 8" "(- 4704007612568381 / 2 ^ 56) * (- 4704007612568381 / 2 ^ 56)" "4913333655287850"]
    by (simp add: js_sub_def js_pow2_def)
  have s45: "js_add (Fin (2331799254372939 / 2 ^ 50)) (Fin (57333809007837 / 2 ^ 43)) = Fin (2417631701844019 / 2 ^ 48)"
    using fl_cert_tie [of "3" "(2331799254372939 / 2 ^ 50) + (57333809007837 / 2 ^ 43)" "4835263403688037"]
    by (simp add: js_sub_def js_pow2_def)
  have s46: "js_gt (Fin (2456666827643925 / 2 ^ 59)) (Fin (2417631701844019 / 2 ^ 48)) = False"
    by (simp add: js_gt_def js_ge_def)
  have s47: "js_mul (Fin (7338727553003137 / 2 ^ 50)) (Fin (- 4704007612568381 / 2 ^ 56)) = Fin (- 119770271047773 / 2 ^ 48)"
    using fl_cert [of "- 2" "(7338727553003137 / 2 ^ 50) * (- 4704007612568381 / 2 ^ 56)" "- 7665297347057472"]
    by (simp add: js_sub_def js_pow2_def)
  have s48: "js_add (Fin 0) (Fin (- 119770271047773 / 2 ^ 48)) = Fin (- 119770271047773 / 2 ^ 48)"
    using fl_cert [of "- 2" "(0) + (- 119770271047773 / 2 ^ 48)" "- 7665297347057472"]
    by (simp add: js_sub_def js_pow2_def)
  have s49: "js_mul (Fin (- 119770271047773 / 2 ^ 48)) (Fin (1528037928413325 / 2 ^ 43)) = Fin (- 5201556997955705 / 2 ^ 46)"
    using fl_cert [of "6" "(- 119770271047773 / 2 ^ 48) * (1528037928413325 / 2 ^ 43)" "- 5201556997955705"]
    by (simp add: js_sub_def js_pow2_def)
  have s50: "js_add (Fin (- 5201556997955705 / 2 ^ 46)) (Fin 1500) = Fin (783996556785471 / 2 ^ 39)"
    using fl_cert [of "10" "(- 5201556997955705 / 2 ^ 46) + (1500)" "6271972454283768"]
    by (simp add: js_sub_def js_pow2_def)
  have s51: "js_min (Fin (783996556785471 / 2 ^ 39)) (Fin 5000) = Fin (783996556785471 / 2 ^ 39)"
    by (simp add: js_min_def)
  have s52: "js_max (Fin 0) (Fin (783996556785471 / 2 ^ 39)) = Fin (783996556785471 / 2 ^ 39)"
    by (simp add: js_max_def)
  have s53: "js_sub (Fin (7505999378950827 / 2 ^ 54)) (Fin (1 / 2)) = Fin (- 1501199875790165 / 2 ^ 54)"
    using fl_cert [of "- 4" "(7505999378950827 / 2 ^ 54) - (1 / 2)" "- 6004799503160660"]
    by (simp add: js_sub_def js_pow2_def)
  have s54: "js_mul (Fin (882001427356571 / 2 ^ 50)) (Fin (- 1501199875790165 / 2 ^ 54)) = Fin (- 2352003806284189 / 2 ^ 55)"
    using fl_cert [of "- 4" "(882001427356571 / 2 ^ 50) * (- 1501199875790165 / 2 ^ 54)" "- 4704007612568378"]
    by (simp add: js_sub_def js_pow2_def)
  have s55: "js_pow2 (Fin (- 2352003806284189 / 2 ^ 55)) = Fin (1228333413821961 / 2 ^ 58)"
    using fl_cert [of "- 8" "(- 2352003806284189 / 2 ^ 55) * (- 2352003806284189 / 2 ^ 55)" "4913333655287844"]
    by (simp add: js_sub_def js_pow2_def)
  have s56: "js_gt (Fin (1228333413821961 / 2 ^ 58)) (Fin (2417631701844019 / 2 ^ 48)) = False"
    by (simp add: js_gt_def js_ge_def)
  have s57: "js_mul (Fin (7338727553003137 / 2 ^ 50)) (Fin (- 2352003806284189 / 2 ^ 55)) = Fin (- 7665297347057467 / 2 ^ 54)"
    using fl_cert [of "- 2" "(7338727553003137 / 2 ^ 50) * (- 2352003806284189 / 2 ^ 55)" "- 7665297347057467"]
    by (simp add: js_sub_def js_pow2_def)
  have s58: "js_add (Fin 0) (Fin (- 7665297347057467 / 2 ^ 54)) = Fin (- 7665297347057467 / 2 ^ 54)"
    using fl_cert [of "- 2" "(0) + (- 7665297347057467 / 2 ^ 54)" "- 7665297347057467"]
    by (simp add: js_sub_def js_pow2_def)
  have s59: "js_mul (Fin (- 7665297347057467 / 2 ^ 54)) (Fin (1528037928413325 / 2 ^ 43)) = Fin (- 2600778498977851 / 2 ^ 45)"
    using fl_cert [of "6" "(- 7665297347057467 / 2 ^ 54) * (1528037928413325 / 2 ^ 43)" "- 5201556997955702"]
    by (simp add: js_sub_def js_pow2_def)
  have s60: "js_add (Fin (- 2600778498977851 / 2 ^ 45)) (Fin 1500) = Fin (6271972454283769 / 2 ^ 42)"
    using fl_cert [of "10" "(- 2600778498977851 / 2 ^ 45) + (1500)" "6271972454283769"]
    by (simp add: js_sub_def js_pow2_def)
  have s61: "js_min (Fin (6271972454283769 / 2 ^ 42)) (Fin 5000) = Fin (6271972454283769 / 2 ^ 42)"
    by (simp add: js_min_def)
  have s62: "js_max (Fin 0) (Fin (6271972454283769 / 2 ^ 42)) = Fin (6271972454283769 / 2 ^ 42)"
    by (simp add: js_max_def)
  note steps = s1 s2 s3 s4 s5 s6 s7 s8 s9 s10 s11 s12 s13 s14 s15 s16 s17 s18 s19 s20 s21 s22 s23 s24 s25 s26 s27 s28 s29 s30 s31 s32 s33 s34 s35 s36 s37 s38 s39 s40 s41 s42 s43 s44 s45 s46 s47 s48 s49 s50 s51 s52 s53 s54 s55 s56 s57 s58 s59 s60 s61 s62
  define R where "R = \<lparr>muJ = Fin 1500, phiJ = Fin 250, sigmaJ = fl (10 ^ 200)\<rparr>"
  define P where "P = \<lparr>muJ = Fin 0, phiJ = Fin (3240600292090459 / 2 ^ 51), sigmaJ = Fin (2941796710330669 * 2 ^ 613)\<rparr>"
  have sdR: "scaleDownJ R = P"
    unfolding scaleDownJ_def Let_def P_def R_def
    by (simp only: PlayerRatingJ.simps DEFAULT_MUJ_def SCALING_FACTORJ_def steps)
  have I: "reduceImpactJ P = Fin (882001427356571 / 2 ^ 50)"
    unfolding reduceImpactJ_def P_def MATH_PI_def
    by (simp only: PlayerRatingJ.simps steps)
  have E: "expectScoreJ P P (Fin (882001427356571 / 2 ^ 50)) = Fin (1 / 2)"
    unfolding expectScoreJ_def Let_def P_def CLAMP_EPSILONJ_def
    by (simp only: PlayerRatingJ.simps steps)
  have w: "calculateMatchWeightJ ''completed'' x y = Fin 1" for x y
    by (simp add: calculateMatchWeightJ_def)
  have ov: "js_pow2 (sigmaJ P) = PInf"
  proof -
    have "(2::real) ^ 1025 \<le> (2941796710330669 * 2 ^ 613) * (2941796710330669 * 2 ^ 613)" by simp
    then show ?thesis
      unfolding P_def js_pow2_def by (simp only: PlayerRatingJ.simps js_mul.simps fl_overflow)
  qed
  have nbO: "\<not> js_gt (js_pow2 (Fin (- 4704007612568381 / 2 ^ 56))) (js_add (js_pow2 (phiJ P)) (Fin (57333809007837 / 2 ^ 43)))"
    unfolding P_def by (simp only: PlayerRatingJ.simps steps) simp
  have dsO: "determineSigmaJ P (Fin (- 4704007612568381 / 2 ^ 56)) (Fin (57333809007837 / 2 ^ 43)) = PInf"
    using ov nbO by (rule determineSigmaJ_overflow)
  have nbP: "\<not> js_gt (js_pow2 (Fin (- 2352003806284189 / 2 ^ 55))) (js_add (js_pow2 (phiJ P)) (Fin (57333809007837 / 2 ^ 43)))"
    unfolding P_def by (simp only: PlayerRatingJ.simps steps) simp
  have dsP: "determineSigmaJ P (Fin (- 2352003806284189 / 2 ^ 55)) (Fin (57333809007837 / 2 ^ 43)) = PInf"
    using ov nbP by (rule determineSigmaJ_overflow)
  have inf: "js_pow2 PInf = PInf" "js_add (js_pow2 (phiJ P)) PInf = PInf" "js_sqrt PInf = PInf"
    "js_div (Fin 1) PInf = Fin 0"
    unfolding P_def by (simp_all only: PlayerRatingJ.simps steps)
      (simp_all add: js_pow2_def inf_of_sign_def)
  have muP: "muJ P = Fin 0" by (simp add: P_def)
  have sideO: "muJ (rate_sideJ (Fin 1) P P (Fin (3752999689475413 / 2 ^ 53))) = Fin (783996556785471 / 2 ^ 39)"
    unfolding rate_sideJ_def Let_def scaleUpJ_def I E
    by (simp only: PlayerRatingJ.simps DEFAULT_MUJ_def SCALING_FACTORJ_def steps dsO inf muP)
  have sideP: "muJ (rate_sideJ (Fin 1) P P (Fin (7505999378950827 / 2 ^ 54))) = Fin (6271972454283769 / 2 ^ 42)"
    unfolding rate_sideJ_def Let_def scaleUpJ_def I E
    by (simp only: PlayerRatingJ.simps DEFAULT_MUJ_def SCALING_FACTORJ_def steps dsP inf muP)
  have a75: "actualScorePlayerJ (Fin 7) (Fin 5) = Fin (5254199565265579 / 2 ^ 53)"
    unfolding actualScorePlayerJ_def Let_def by (simp only: steps if_False)
  have a57: "actualScorePlayerJ (Fin 5) (Fin 7) = Fin (7505999378950827 / 2 ^ 54)"
    unfolding actualScorePlayerJ_def Let_def by (simp only: steps if_False)
  have u75: "opponent_newJ (calculateGlickoTRUpdateJ R R (Fin 7) (Fin 5) ''completed'') =
      rate_sideJ (Fin 1) P P (Fin (3752999689475413 / 2 ^ 53))"
    unfolding update_sidesJ Let_def w sdR a75
    by (simp only: steps if_False GlickoTRUpdateJ.simps)
  have u57: "player_newJ (calculateGlickoTRUpdateJ R R (Fin 5) (Fin 7) ''completed'') =
      rate_sideJ (Fin 1) P P (Fin (7505999378950827 / 2 ^ 54))"
    unfolding update_sidesJ Let_def w sdR a57
    by (simp only: steps if_False GlickoTRUpdateJ.simps)
  have m1: "muJ (player_newJ (calculateGlickoTRUpdateJ R R (Fin 5) (Fin 7) ''completed'')) =
      Fin (6271972454283769 / 2 ^ 42)"
    unfolding u57 by (rule sideP)
  have m2: "muJ (opponent_newJ (calculateGlickoTRUpdateJ R R (Fin 7) (Fin 5) ''completed'')) =
      Fin (783996556785471 / 2 ^ 39)"
    unfolding u75 by (rule sideO)
  have ne: "Fin (6271972454283769 / 2 ^ 42) \<noteq> Fin (783996556785471 / 2 ^ 39)" by simp
  have "calculateGlickoTRUpdateJ R R (Fin 5) (Fin 7) ''completed'' \<noteq>
      \<lparr>player_newJ = opponent_newJ (calculateGlickoTRUpdateJ R R (Fin 7) (Fin 5) ''completed''),
       opponent_newJ = player_newJ (calculateGlickoTRUpdateJ R R (Fin 7) (Fin 5) ''completed'')\<rparr>"
  proof
    assume "calculateGlickoTRUpdateJ R R (Fin 5) (Fin 7) ''completed'' =
      \<lparr>player_newJ = opponent_newJ (calculateGlickoTRUpdateJ R R (Fin 7) (Fin 5) ''completed''),
       opponent_newJ = player_newJ (calculateGlickoTRUpdateJ R R (Fin 7) (Fin 5) ''completed'')\<rparr>"
    then have "player_newJ (calculateGlickoTRUpdateJ R R (Fin 5) (Fin 7) ''completed'') =
      opponent_newJ (calculateGlickoTRUpdateJ R R (Fin 7) (Fin 5) ''completed'')"
      by simp
    with m1 m2 ne show False by simp
  qed
  with m1 m2 show ?thesis unfolding R_def by blast
qed

text \<open>
  C6, amended. Swapping the competitors and their scores swaps the two outputs exactly
  whenever the weight is 0 or less, and whenever the two score shares the code computes
  are complementary as doubles: \<open>1 - sA/(sA+sB)\<close> is the double \<open>sB/(sA+sB)\<close>, and
  \<open>1 - sB/(sA+sB)\<close> is the double \<open>sA/(sA+sB)\<close>.
\<close>

theorem update_symmetric_complementary:
  assumes "js_le (calculateMatchWeightJ status sA sB) (Fin 0) \<or>
      (js_sub (Fin 1) (actualScorePlayerJ sA sB) = actualScorePlayerJ sB sA \<and>
       js_sub (Fin 1) (actualScorePlayerJ sB sA) = actualScorePlayerJ sA sB)"
  shows "calculateGlickoTRUpdateJ B A sB sA status =
     \<lparr>player_newJ = opponent_newJ (calculateGlickoTRUpdateJ A B sA sB status),
      opponent_newJ = player_newJ (calculateGlickoTRUpdateJ A B sA sB status)\<rparr>"
proof -
  have w: "calculateMatchWeightJ status sB sA = calculateMatchWeightJ status sA sB"
    by (rule weightJ_commute)
  show ?thesis
  proof (cases "js_le (calculateMatchWeightJ status sA sB) (Fin 0)")
    case True
    then show ?thesis by (simp add: update_sidesJ w)
  next
    case False
    with assms have c: "js_sub (Fin 1) (actualScorePlayerJ sA sB) = actualScorePlayerJ sB sA"
      "js_sub (Fin 1) (actualScorePlayerJ sB sA) = actualScorePlayerJ sA sB" by simp_all
    show ?thesis
      using False by (simp add: update_sidesJ [of B A] update_sidesJ [of A B] w c Let_def)
  qed
qed


theorem update_symmetric_complementary_witness:
  "calculateGlickoTRUpdateJ (\<lparr>muJ = Fin 1600, phiJ = Fin 200, sigmaJ = DEFAULT_SIGMAJ\<rparr>) createDefaultRatingJ (Fin 2) (Fin 6) ''completed'' =
     \<lparr>player_newJ = opponent_newJ (calculateGlickoTRUpdateJ createDefaultRatingJ
        (\<lparr>muJ = Fin 1600, phiJ = Fin 200, sigmaJ = DEFAULT_SIGMAJ\<rparr>) (Fin 6) (Fin 2) ''completed''),
      opponent_newJ = player_newJ (calculateGlickoTRUpdateJ createDefaultRatingJ
        (\<lparr>muJ = Fin 1600, phiJ = Fin 200, sigmaJ = DEFAULT_SIGMAJ\<rparr>) (Fin 6) (Fin 2) ''completed'')\<rparr>"
proof -
  have s1: "js_add (Fin 6) (Fin 2) = Fin 8"
    using fl_cert [of "3" "(6) + (2)" "4503599627370496"]
    by (simp add: js_sub_def js_pow2_def)
  have s2: "js_le (Fin 8) (Fin 0) = False"
    by (simp add: js_gt_def js_ge_def)
  have s3: "js_div (Fin 6) (Fin 8) = Fin (3 / 2 ^ 2)"
    using fl_cert [of "- 1" "(6) / (8)" "6755399441055744"]
    by (simp add: js_sub_def js_pow2_def)
  have s4: "js_sub (Fin 1) (Fin (3 / 2 ^ 2)) = Fin (1 / 2 ^ 2)"
    using fl_cert [of "- 2" "(1) - (3 / 2 ^ 2)" "4503599627370496"]
    by (simp add: js_sub_def js_pow2_def)
  have s5: "js_add (Fin 2) (Fin 6) = Fin 8"
    using fl_cert [of "3" "(2) + (6)" "4503599627370496"]
    by (simp add: js_sub_def js_pow2_def)
  have s6: "js_div (Fin 2) (Fin 8) = Fin (1 / 2 ^ 2)"
    using fl_cert [of "- 2" "(2) / (8)" "4503599627370496"]
    by (simp add: js_sub_def js_pow2_def)
  have s7: "js_sub (Fin 1) (Fin (1 / 2 ^ 2)) = Fin (3 / 2 ^ 2)"
    using fl_cert [of "- 1" "(1) - (1 / 2 ^ 2)" "6755399441055744"]
    by (simp add: js_sub_def js_pow2_def)
  note steps = s1 s2 s3 s4 s5 s6 s7
  have a62: "actualScorePlayerJ (Fin 6) (Fin 2) = Fin (3 / 2 ^ 2)"
    unfolding actualScorePlayerJ_def Let_def by (simp only: steps if_False)
  have a26: "actualScorePlayerJ (Fin 2) (Fin 6) = Fin (1 / 2 ^ 2)"
    unfolding actualScorePlayerJ_def Let_def by (simp only: steps if_False)
  have "js_sub (Fin 1) (actualScorePlayerJ (Fin 6) (Fin 2)) = actualScorePlayerJ (Fin 2) (Fin 6) \<and>
      js_sub (Fin 1) (actualScorePlayerJ (Fin 2) (Fin 6)) = actualScorePlayerJ (Fin 6) (Fin 2)"
    unfolding a62 a26 by (simp only: steps simp_thms)
  then show ?thesis
    by (intro update_symmetric_complementary) simp
qed

subsection \<open>Scale conversion\<close>







end
